theory Spec2Isabelle
  imports Complex_Main "HOL-Library.Word"
begin

section \<open>Control core of the IIO sensors HAL (control.c)\<close>

text \<open>
  A shallow embedding of \<^verbatim>\<open>control.c\<close>. The process-wide tables of the C file are the
  fields of one record that every function takes and returns. Calls that leave the
  process (sysfs reads and writes, \<^verbatim>\<open>open\<close>, \<^verbatim>\<open>close\<close>, \<^verbatim>\<open>epoll_ctl\<close>, \<^verbatim>\<open>epoll_wait\<close>,
  \<^verbatim>\<open>usleep\<close>, the write to the socket pair) are appended, in program order, to the
  \<open>trace\<close> field; what they return is read from an environment record.
  C \<^verbatim>\<open>int\<close> and \<^verbatim>\<open>int64_t\<close> values are integers; a conversion from \<^verbatim>\<open>int64_t\<close> to \<^verbatim>\<open>int\<close>
  wraps as written out in \<open>to_int\<close>; signed arithmetic is assumed not to overflow
  (undefined behaviour in C). Diagnostic output (the ALOG macros) is not modelled.
\<close>

subsection \<open>Constants\<close>

definition POLL_MIN_INTERVAL :: int where
  "POLL_MIN_INTERVAL = 10000"

definition INVALID_DEV_NUM :: int where
  "INVALID_DEV_NUM = 4294967295"

definition EINVAL :: int where
  "EINVAL = 22"

definition EPOLLIN :: int where
  "EPOLLIN = 1"

definition INT64_MAX :: int where
  "INT64_MAX = 9223372036854775807"

text \<open>Sensor type codes of the platform header \<^verbatim>\<open>hardware/sensors.h\<close>.\<close>

definition SENSOR_TYPE_ACCELEROMETER :: int where "SENSOR_TYPE_ACCELEROMETER = 1"
definition SENSOR_TYPE_MAGNETIC_FIELD :: int where "SENSOR_TYPE_MAGNETIC_FIELD = 2"
definition SENSOR_TYPE_ORIENTATION :: int where "SENSOR_TYPE_ORIENTATION = 3"
definition SENSOR_TYPE_GYROSCOPE :: int where "SENSOR_TYPE_GYROSCOPE = 4"
definition SENSOR_TYPE_LIGHT :: int where "SENSOR_TYPE_LIGHT = 5"
definition SENSOR_TYPE_PRESSURE :: int where "SENSOR_TYPE_PRESSURE = 6"
definition SENSOR_TYPE_TEMPERATURE :: int where "SENSOR_TYPE_TEMPERATURE = 7"
definition SENSOR_TYPE_PROXIMITY :: int where "SENSOR_TYPE_PROXIMITY = 8"
definition SENSOR_TYPE_ROTATION_VECTOR :: int where "SENSOR_TYPE_ROTATION_VECTOR = 11"
definition SENSOR_TYPE_RELATIVE_HUMIDITY :: int where "SENSOR_TYPE_RELATIVE_HUMIDITY = 12"
definition SENSOR_TYPE_AMBIENT_TEMPERATURE :: int where "SENSOR_TYPE_AMBIENT_TEMPERATURE = 13"
definition SENSOR_TYPE_DEVICE_PRIVATE_BASE :: int where "SENSOR_TYPE_DEVICE_PRIVATE_BASE = 65536"

subsection \<open>C arithmetic\<close>

text \<open>Conversion of a 64-bit value to \<^verbatim>\<open>int\<close> (32 bits, two's complement).\<close>

definition to_int :: "int \<Rightarrow> int" where
  "to_int x = (x + 2147483648) mod 4294967296 - 2147483648"

text \<open>C division truncates towards zero.\<close>

definition c_div :: "int \<Rightarrow> int \<Rightarrow> int" where
  "c_div a b = sgn a * sgn b * (\<bar>a\<bar> div \<bar>b\<bar>)"

text \<open>The C operator \<^verbatim>\<open>!\<close>.\<close>

definition lnot :: "int \<Rightarrow> int" where
  "lnot x = (if x = 0 then 1 else 0)"

text \<open>\<^verbatim>\<open>%d\<close> of \<^verbatim>\<open>sprintf\<close>.\<close>

fun dec_nat :: "nat \<Rightarrow> string" where
  "dec_nat n =
     (if n < 10 then [char_of (48 + n)]
      else dec_nat (n div 10) @ [char_of (48 + n mod 10)])"

declare dec_nat.simps [simp del]

definition dec_int :: "int \<Rightarrow> string" where
  "dec_int i = (if i < 0 then CHR ''-'' # dec_nat (nat (- i)) else dec_nat (nat i))"

subsection \<open>Data\<close>

text \<open>
  The structures below are declared in headers that are not part of the sources at
  hand (\<^verbatim>\<open>common.h\<close>, \<^verbatim>\<open>enumeration.h\<close>); the fields are the ones \<^verbatim>\<open>control.c\<close> reads
  and writes. \<open>datum_info_t\<close> is filled by the external decoder only.
\<close>

record datum_info_t =
  sign :: char
  endianness :: char
  realbits :: int
  shift :: int
  storagebits :: int

record channel_info_t =
  offset :: int
  size_ch :: int
  type_spec :: string
  type_info :: datum_info_t

record sensors_event_t =
  version :: int
  sensor :: int
  sensor_type :: int
  timestamp :: int
  data :: "real list"

record sensor_info_t =
  friendly_name :: string
  internal_name :: string
  dev_num :: int
  catalog_index :: nat
  num_channels :: nat
  channel :: "nat \<Rightarrow> channel_info_t"
  enable_count :: int
  sampling_rate :: int
  last_integration_ts :: int
  report_buffer :: "8 word list"
  report_pending :: int
  ops_transform :: "nat \<Rightarrow> nat \<Rightarrow> 8 word list \<Rightarrow> real"
  ops_finalize :: "nat \<Rightarrow> sensors_event_t \<Rightarrow> sensors_event_t"

record channel_descriptor_t =
  en_path :: string
  type_path :: string
  index_path :: string

record sensor_catalog_entry_t =
  tag :: string
  cat_type :: int
  channel_desc :: "nat \<Rightarrow> channel_descriptor_t"

text \<open>
  Compile-time sizes, the catalog and the type decoder come from the rest of the
  module; they are parameters of the model.
\<close>

record config =
  MAX_DEVICES :: nat
  MAX_SENSORS :: nat
  MAX_CHANNELS :: nat
  MAX_SENSOR_REPORT_SIZE :: nat
  sizeof_sensors_event_t :: int
  sensor_catalog :: "nat \<Rightarrow> sensor_catalog_entry_t"
  decode_type_spec :: "string \<Rightarrow> int \<times> datum_info_t"

text \<open>The sysfs paths, as the format macros applied to their arguments.\<close>

datatype sysfs_path =
    ENABLE_PATH int
  | TRIGGER_PATH int
  | CHANNEL_PATH int string
  | SENSOR_SAMPLING_PATH int string

datatype effect =
    Sysfs_write_int sysfs_path int
  | Sysfs_write_str sysfs_path string
  | Sysfs_read_int sysfs_path
  | Sysfs_read_str sysfs_path
  | Open_dev int
  | Close_fd int
  | Epoll_add int int
  | Epoll_del int
  | Wakeup_write
  | Wakeup_read
  | Usleep int
  | Epoll_wait int
  | Read_dev int int

text \<open>
  The globals of \<^verbatim>\<open>control.c\<close> and \<^verbatim>\<open>enumeration.c\<close>, the set of file descriptors
  registered with the epoll instance \<^verbatim>\<open>poll_fd\<close>, the number of clock readings taken so
  far and the trace of external calls.
\<close>

record hal_state =
  sensor_info :: "nat \<Rightarrow> sensor_info_t"
  sensor_count :: nat
  poll_sensors_per_dev :: "int \<Rightarrow> int"
  trig_sensors_per_dev :: "int \<Rightarrow> int"
  device_fd :: "int \<Rightarrow> int"
  active_poll_sensors :: int
  last_poll_exit_ts :: int
  poll_set :: "int set"
  clock_reads :: nat
  trace :: "effect list"

text \<open>
  What the outside answers during one control call: \<open>None\<close> stands for a sysfs read
  returning -1; \<open>open_res\<close> and \<open>epoll_add_res\<close> are the values returned by \<^verbatim>\<open>open\<close> on
  the device file and by \<^verbatim>\<open>epoll_ctl(EPOLL_CTL_ADD)\<close>.
\<close>

record env =
  sysfs_int :: "sysfs_path \<Rightarrow> int option"
  sysfs_str :: "sysfs_path \<Rightarrow> string option"
  open_res :: "int \<Rightarrow> int"
  epoll_add_res :: "int \<Rightarrow> int"

subsection \<open>Sysfs gateway (utils.c), as seen from control.c\<close>

definition emit :: "effect \<Rightarrow> hal_state \<Rightarrow> hal_state" where
  "emit e st = st\<lparr>trace := trace st @ [e]\<rparr>"

definition sysfs_write_int :: "sysfs_path \<Rightarrow> int \<Rightarrow> hal_state \<Rightarrow> hal_state" where
  "sysfs_write_int path v st = emit (Sysfs_write_int path v) st"

definition sysfs_write_str :: "sysfs_path \<Rightarrow> string \<Rightarrow> hal_state \<Rightarrow> hal_state" where
  "sysfs_write_str path str st = (if str = [] then st else emit (Sysfs_write_str path str) st)"

definition enable_buffer :: "int \<Rightarrow> int \<Rightarrow> hal_state \<Rightarrow> hal_state" where
  "enable_buffer dev enabled st = sysfs_write_int (ENABLE_PATH dev) enabled st"

definition setup_trigger :: "int \<Rightarrow> string \<Rightarrow> hal_state \<Rightarrow> hal_state" where
  "setup_trigger dev trigger_val st = sysfs_write_str (TRIGGER_PATH dev) trigger_val st"

definition upd_sensor :: "nat \<Rightarrow> (sensor_info_t \<Rightarrow> sensor_info_t) \<Rightarrow> hal_state \<Rightarrow> hal_state" where
  "upd_sensor s f st = st\<lparr>sensor_info := (sensor_info st)(s := f (sensor_info st s))\<rparr>"

definition upd_channel ::
  "nat \<Rightarrow> nat \<Rightarrow> (channel_info_t \<Rightarrow> channel_info_t) \<Rightarrow> hal_state \<Rightarrow> hal_state" where
  "upd_channel s c f st =
     upd_sensor s (\<lambda>x. x\<lparr>channel := (channel x)(c := f (channel x c))\<rparr>) st"

definition memset :: "8 word list \<Rightarrow> 8 word \<Rightarrow> nat \<Rightarrow> 8 word list" where
  "memset buf v n = replicate n v @ drop n buf"

subsection \<open>adjust_counters\<close>

text \<open>
  Lines 215-239: the per-sensor enable count. \<open>Some r\<close> is a \<^verbatim>\<open>return r\<close> taken there;
  \<open>None\<close> means that the sensor changed state and the function goes on.
\<close>

definition adjust_enable_count ::
  "config \<Rightarrow> nat \<Rightarrow> int \<Rightarrow> hal_state \<Rightarrow> int option \<times> hal_state" where
  "adjust_enable_count cfg s enabled st =
     (if enabled \<noteq> 0 then
        (let st1 = upd_sensor s (\<lambda>x. x\<lparr>enable_count := enable_count x + 1\<rparr>) st in
         if enable_count (sensor_info st1 s) \<noteq> 1 then (Some 0, st1) else (None, st1))
      else if enable_count (sensor_info st s) = 0 then (Some (- 1), st)
      else
        (let st1 = upd_sensor s (\<lambda>x. x\<lparr>enable_count := enable_count x - 1\<rparr>) st in
         if enable_count (sensor_info st1 s) > 0 then (Some 0, st1)
         else
           (None, upd_sensor s (\<lambda>x. x\<lparr>report_pending := 0,
              report_buffer := memset (report_buffer x) 0 (MAX_SENSOR_REPORT_SIZE cfg)\<rparr>) st1)))"

text \<open>Lines 241-262: the per-device counters; always returns 1.\<close>

definition adjust_device_counters :: "nat \<Rightarrow> int \<Rightarrow> int \<Rightarrow> hal_state \<Rightarrow> int \<times> hal_state" where
  "adjust_device_counters s enabled dev st =
     (if num_channels (sensor_info st s) \<noteq> 0 then
        (if enabled \<noteq> 0 then
           (1, st\<lparr>trig_sensors_per_dev :=
                 (trig_sensors_per_dev st)(dev := trig_sensors_per_dev st dev + 1)\<rparr>)
         else
           (1, st\<lparr>trig_sensors_per_dev :=
                 (trig_sensors_per_dev st)(dev := trig_sensors_per_dev st dev - 1)\<rparr>))
      else if enabled \<noteq> 0 then
        (1, st\<lparr>active_poll_sensors := active_poll_sensors st + 1,
              poll_sensors_per_dev :=
                (poll_sensors_per_dev st)(dev := poll_sensors_per_dev st dev + 1)\<rparr>)
      else
        (1, st\<lparr>active_poll_sensors := active_poll_sensors st - 1,
              poll_sensors_per_dev :=
                (poll_sensors_per_dev st)(dev := poll_sensors_per_dev st dev - 1)\<rparr>))"

definition adjust_counters :: "config \<Rightarrow> nat \<Rightarrow> int \<Rightarrow> hal_state \<Rightarrow> int \<times> hal_state" where
  "adjust_counters cfg s enabled st =
     (let dev = dev_num (sensor_info st s) in
      case adjust_enable_count cfg s enabled st of
        (Some r, st1) \<Rightarrow> (r, st1)
      | (None, st1) \<Rightarrow> adjust_device_counters s enabled dev st1)"

subsection \<open>refresh_sensor_report_maps\<close>

text \<open>
  The three local tables of the function and its channel counter. The tables have
  \<open>MAX_SENSORS * MAX_CHANNELS\<close> entries, all zero at the start.
\<close>

record report_maps =
  channel_size_from_index :: "nat \<Rightarrow> int"
  sensor_handle_from_index :: "nat \<Rightarrow> nat"
  channel_number_from_index :: "nat \<Rightarrow> nat"
  active_channels :: int

definition empty_maps :: report_maps where
  "empty_maps = \<lparr>channel_size_from_index = (\<lambda>_. 0), sensor_handle_from_index = (\<lambda>_. 0),
     channel_number_from_index = (\<lambda>_. 0), active_channels = 0\<rparr>"

text \<open>
  Lines 103-166: the body of the inner loop for channel \<open>c\<close> of sensor \<open>s\<close>. Each
  \<^verbatim>\<open>continue\<close> returns the state and tables reached so far. The source compares the index
  with \<open>MAX_SENSORS\<close> only; an index below zero would be written in front of the tables,
  which is no behaviour of the program: the result is \<open>None\<close>.
\<close>

definition scan_channel ::
  "config \<Rightarrow> env \<Rightarrow> nat \<Rightarrow> nat \<Rightarrow> hal_state \<times> report_maps \<Rightarrow> (hal_state \<times> report_maps) option" where
  "scan_channel cfg e s c sm =
     (let st = fst sm; maps = snd sm;
          i = catalog_index (sensor_info st s);
          dev = dev_num (sensor_info st s);
          desc = channel_desc (sensor_catalog cfg i) c;
          st1 = emit (Sysfs_read_int (CHANNEL_PATH dev (en_path desc))) st
      in
      case sysfs_int e (CHANNEL_PATH dev (en_path desc)) of
        None \<Rightarrow> Some (st1, maps)
      | Some ch_enabled \<Rightarrow>
          (let st2 = (if lnot ch_enabled \<noteq> 1
                      then upd_channel s c (\<lambda>ch. ch\<lparr>size_ch := 0\<rparr>) st1 else st1);
               st3 = emit (Sysfs_read_str (CHANNEL_PATH dev (type_path desc))) st2
           in
           case sysfs_str e (CHANNEL_PATH dev (type_path desc)) of
             None \<Rightarrow> Some (st3, maps)
           | Some spec_buf \<Rightarrow>
               (let size = fst (decode_type_spec cfg spec_buf);
                    st4 = upd_channel s c (\<lambda>ch. ch\<lparr>type_spec := spec_buf,
                            type_info := snd (decode_type_spec cfg spec_buf)\<rparr>) st3;
                    st5 = emit (Sysfs_read_int (CHANNEL_PATH dev (index_path desc))) st4
                in
                case sysfs_int e (CHANNEL_PATH dev (index_path desc)) of
                  None \<Rightarrow> Some (st5, maps)
                | Some ch_index \<Rightarrow>
                    if ch_index \<ge> int (MAX_SENSORS cfg) then Some (st5, maps)
                    else if ch_index < 0 then None
                    else Some (st5, maps\<lparr>
                      channel_size_from_index :=
                        (channel_size_from_index maps)(nat ch_index := size),
                      sensor_handle_from_index :=
                        (sensor_handle_from_index maps)(nat ch_index := s),
                      channel_number_from_index :=
                        (channel_number_from_index maps)(nat ch_index := c),
                      active_channels := active_channels maps + 1\<rparr>))))"

text \<open>Lines 101-167: the loop over the channels of sensor \<open>s\<close>.\<close>

fun scan_channels ::
  "config \<Rightarrow> env \<Rightarrow> nat \<Rightarrow> nat list \<Rightarrow> hal_state \<times> report_maps \<Rightarrow> (hal_state \<times> report_maps) option" where
  "scan_channels cfg e s [] sm = Some sm"
| "scan_channels cfg e s (c # cs) sm =
     (case scan_channel cfg e s c sm of
        None \<Rightarrow> None
      | Some sm' \<Rightarrow> scan_channels cfg e s cs sm')"

text \<open>Lines 94-168: the loop over the sensors, skipping those of other devices.\<close>

fun scan_sensors ::
  "config \<Rightarrow> env \<Rightarrow> int \<Rightarrow> nat list \<Rightarrow> hal_state \<times> report_maps \<Rightarrow> (hal_state \<times> report_maps) option" where
  "scan_sensors cfg e dev [] sm = Some sm"
| "scan_sensors cfg e dev (s # ss) sm =
     (if dev_num (sensor_info (fst sm) s) \<noteq> dev then scan_sensors cfg e dev ss sm
      else
        (case scan_channels cfg e s [0..<num_channels (sensor_info (fst sm) s)] sm of
           None \<Rightarrow> None
         | Some sm' \<Rightarrow> scan_sensors cfg e dev ss sm'))"

text \<open>Lines 183-199: offsets in index order; the accumulator is \<open>offset\<close>.\<close>

fun assign_offsets :: "report_maps \<Rightarrow> nat list \<Rightarrow> int \<times> hal_state \<Rightarrow> int \<times> hal_state" where
  "assign_offsets maps [] acc = acc"
| "assign_offsets maps (i # is) acc =
     (let s = sensor_handle_from_index maps i;
          c = channel_number_from_index maps i;
          size = channel_size_from_index maps i
      in
      if size = 0 then assign_offsets maps is acc
      else assign_offsets maps is
             (fst acc + size,
              upd_channel s c (\<lambda>ch. ch\<lparr>offset := fst acc, size_ch := size\<rparr>) (snd acc)))"

definition refresh_sensor_report_maps :: "config \<Rightarrow> env \<Rightarrow> int \<Rightarrow> hal_state \<Rightarrow> hal_state option" where
  "refresh_sensor_report_maps cfg e dev st =
     (case scan_sensors cfg e dev [0..<sensor_count st] (st, empty_maps) of
        None \<Rightarrow> None
      | Some (st1, maps) \<Rightarrow>
          Some (snd (assign_offsets maps [0..<MAX_SENSORS cfg * MAX_CHANNELS cfg] (0, st1))))"

subsection \<open>sensor_activate\<close>

text \<open>Lines 311-317: one \<^verbatim>\<open>_en\<close> write per channel of the sensor.\<close>

fun write_channel_enables :: "config \<Rightarrow> nat \<Rightarrow> int \<Rightarrow> nat list \<Rightarrow> hal_state \<Rightarrow> hal_state" where
  "write_channel_enables cfg s enabled [] st = st"
| "write_channel_enables cfg s enabled (c # cs) st =
     write_channel_enables cfg s enabled cs
       (sysfs_write_int
          (CHANNEL_PATH (dev_num (sensor_info st s))
             (en_path (channel_desc (sensor_catalog cfg (catalog_index (sensor_info st s))) c)))
          enabled st)"

text \<open>Lines 290-305: the switch on the number of trigger-mode sensors of the device.\<close>

definition configure_trigger :: "nat \<Rightarrow> int \<Rightarrow> hal_state \<Rightarrow> hal_state" where
  "configure_trigger s dev st =
     (if trig_sensors_per_dev st dev = 0 then setup_trigger dev ''none'' st
      else if trig_sensors_per_dev st dev = 1 then
        setup_trigger dev (internal_name (sensor_info st s) @ ''-dev'' @ dec_int dev) st
      else st)"

text \<open>
  Lines 285-324, for a sensor with channels. \<open>None\<close> is passed on from the refresh.
\<close>

definition reconfigure_buffer :: "config \<Rightarrow> env \<Rightarrow> nat \<Rightarrow> int \<Rightarrow> int \<Rightarrow> hal_state \<Rightarrow> hal_state option" where
  "reconfigure_buffer cfg e s enabled dev st =
     (let st1 = enable_buffer dev 0 st;
          st2 = configure_trigger s dev st1;
          st3 = write_channel_enables cfg s enabled [0..<num_channels (sensor_info st2 s)] st2
      in
      if trig_sensors_per_dev st3 dev \<noteq> 0 then
        (case refresh_sensor_report_maps cfg e dev st3 of
           None \<Rightarrow> None
         | Some st4 \<Rightarrow> Some (enable_buffer dev 1 st4))
      else Some st3)"

text \<open>Lines 332-386: the file descriptor of the device, the poll set and the wake-up.\<close>

definition manage_device_fd ::
  "config \<Rightarrow> env \<Rightarrow> nat \<Rightarrow> int \<Rightarrow> int \<Rightarrow> bool \<Rightarrow> hal_state \<Rightarrow> int \<times> hal_state" where
  "manage_device_fd cfg e s enabled dev is_poll_sensor st =
     (let dev_fd = device_fd st dev in
      if enabled = 0 then
        (if dev_fd \<noteq> - 1 \<and> poll_sensors_per_dev st dev = 0 \<and> trig_sensors_per_dev st dev = 0
         then
           (let st1 = (emit (Epoll_del dev_fd) st)\<lparr>poll_set := poll_set st - {dev_fd}\<rparr>;
                st2 = emit (Close_fd dev_fd) st1
            in (0, st2\<lparr>device_fd := (device_fd st2)(dev := - 1)\<rparr>))
         else (0, st))
      else if dev_fd = - 1 then
        (let st1 = emit (Open_dev dev) st;
             dev_fd = open_res e dev;
             st2 = st1\<lparr>device_fd := (device_fd st1)(dev := dev_fd)\<rparr>
         in
         if dev_fd = - 1 then (- 1, snd (adjust_counters cfg s 0 st2))
         else if \<not> is_poll_sensor then
           (let st3 = emit (Epoll_add dev_fd dev) st2 in
            if epoll_add_res e dev_fd = - 1 then (- 1, st3)
            else (0, emit Wakeup_write (st3\<lparr>poll_set := insert dev_fd (poll_set st3)\<rparr>)))
         else (0, emit Wakeup_write st2))
      else (0, emit Wakeup_write st))"

definition sensor_activate :: "config \<Rightarrow> env \<Rightarrow> nat \<Rightarrow> int \<Rightarrow> hal_state \<Rightarrow> (int \<times> hal_state) option" where
  "sensor_activate cfg e s enabled st =
     (let dev = dev_num (sensor_info st s);
          is_poll_sensor = (num_channels (sensor_info st s) = 0);
          (ret, st1) = adjust_counters cfg s enabled st
      in
      if ret \<le> 0 then Some (ret, st1)
      else if \<not> is_poll_sensor then
        (case reconfigure_buffer cfg e s enabled dev st1 of
           None \<Rightarrow> None
         | Some st2 \<Rightarrow> Some (manage_device_fd cfg e s enabled dev is_poll_sensor st2))
      else Some (manage_device_fd cfg e s enabled dev is_poll_sensor st1))"

subsection \<open>sensor_set_delay\<close>

definition sensor_set_delay :: "config \<Rightarrow> env \<Rightarrow> nat \<Rightarrow> int \<Rightarrow> hal_state \<Rightarrow> int \<times> hal_state" where
  "sensor_set_delay cfg e s ns st =
     (let dev = dev_num (sensor_info st s);
          i = catalog_index (sensor_info st s);
          prefix = tag (sensor_catalog cfg i)
      in
      if ns = 0 then (- EINVAL, st)
      else
        (let new_sampling_rate0 = to_int (c_div 1000000000 ns);
             new_sampling_rate = (if new_sampling_rate0 = 0 then 1 else new_sampling_rate0);
             path = SENSOR_SAMPLING_PATH dev prefix;
             st1 = emit (Sysfs_read_int path) st;
             st2 =
               (case sysfs_int e path of
                  None \<Rightarrow> st1
                | Some cur_sampling_rate \<Rightarrow>
                    if new_sampling_rate \<noteq> cur_sampling_rate then
                      (let a = (if trig_sensors_per_dev st1 dev \<noteq> 0
                                then enable_buffer dev 0 st1 else st1);
                           b = sysfs_write_int path new_sampling_rate a
                       in if trig_sensors_per_dev b dev \<noteq> 0 then enable_buffer dev 1 b else b)
                    else st1);
             st3 = upd_sensor s (\<lambda>x. x\<lparr>sampling_rate := new_sampling_rate\<rparr>) st2
         in (0, emit Wakeup_write st3)))"

subsection \<open>The poll side: clock, device reports, event shaping\<close>

text \<open>
  \<open>get_timestamp\<close> gives the value of the k-th clock reading of the run;
  \<open>acquire_immediate_value\<close> is the external sysfs read of a poll-mode field.
\<close>

record poll_env =
  get_timestamp :: "nat \<Rightarrow> int"
  acquire_immediate_value :: "nat \<Rightarrow> nat \<Rightarrow> real"

text \<open>
  What one \<^verbatim>\<open>epoll_wait\<close> delivers: \<open>None\<close> for -1, else the signalled events as pairs
  \<open>(events, data.u32)\<close>; and what \<^verbatim>\<open>read\<close> yields on a device descriptor after it
  (\<open>None\<close> for -1).
\<close>

record wait_step =
  wait_events :: "(int \<times> int) list option"
  dev_read :: "int \<Rightarrow> 8 word list option"

datatype poll_outcome =
    Returned int sensors_event_t hal_state
  | Blocked hal_state

definition read_clock :: "poll_env \<Rightarrow> hal_state \<Rightarrow> int \<times> hal_state" where
  "read_clock pe st = (get_timestamp pe (clock_reads st), st\<lparr>clock_reads := clock_reads st + 1\<rparr>)"

text \<open>\<^verbatim>\<open>memcpy(target + toff, source + soff, n)\<close>, both ranges inside their arrays.\<close>

definition memcpy_at :: "8 word list \<Rightarrow> nat \<Rightarrow> 8 word list \<Rightarrow> nat \<Rightarrow> nat \<Rightarrow> 8 word list" where
  "memcpy_at target toff source soff n =
     take toff target @ take n (drop soff source) @ drop (toff + n) target"

text \<open>Lines 409-412: the sum of the channel sizes of the sensors of the device.\<close>

definition expected_report_size :: "config \<Rightarrow> int \<Rightarrow> hal_state \<Rightarrow> int" where
  "expected_report_size cfg dev st =
     sum_list (map (\<lambda>s. if dev_num (sensor_info st s) = dev
                         then sum_list (map (\<lambda>c. size_ch (channel (sensor_info st s) c))
                                [0..<num_channels (sensor_info st s)])
                         else 0)
               [0..<MAX_SENSORS cfg])"

text \<open>Lines 429-441: the accumulator is \<open>sr_offset\<close> and the report buffer.\<close>

fun copy_channels :: "sensor_info_t \<Rightarrow> 8 word list \<Rightarrow> nat list \<Rightarrow> int \<times> 8 word list \<Rightarrow> int \<times> 8 word list" where
  "copy_channels x buf [] acc = acc"
| "copy_channels x buf (c # cs) acc =
     copy_channels x buf cs
       (fst acc + size_ch (channel x c),
        memcpy_at (snd acc) (nat (fst acc)) buf (nat (offset (channel x c)))
          (nat (size_ch (channel x c))))"

text \<open>Lines 424-449.\<close>

fun distribute_report :: "int \<Rightarrow> 8 word list \<Rightarrow> nat list \<Rightarrow> hal_state \<Rightarrow> hal_state" where
  "distribute_report dev buf [] st = st"
| "distribute_report dev buf (s # ss) st =
     (if dev_num (sensor_info st s) = dev then
        distribute_report dev buf ss
          (upd_sensor s (\<lambda>x. x\<lparr>
             report_buffer := snd (copy_channels x buf [0..<num_channels x] (0, report_buffer x)),
             report_pending := (if enable_count x \<noteq> 0 then 1 else report_pending x)\<rparr>) st)
      else distribute_report dev buf ss st)"

definition integrate_device_report :: "config \<Rightarrow> wait_step \<Rightarrow> int \<Rightarrow> hal_state \<Rightarrow> int \<times> hal_state" where
  "integrate_device_report cfg w dev st =
     (if dev < 0 \<or> dev \<ge> int (MAX_DEVICES cfg) \<or> trig_sensors_per_dev st dev = 0 then (- 1, st)
      else
        (let expected_size = expected_report_size cfg dev st;
             st1 = emit (Read_dev (device_fd st dev) expected_size) st
         in
         case dev_read w (device_fd st dev) of
           None \<Rightarrow> (- 1, st1)
         | Some bytes \<Rightarrow>
             (let got = take (nat expected_size) bytes;
                  buf = got @ replicate (MAX_SENSOR_REPORT_SIZE cfg * MAX_SENSORS cfg - length got) 0
              in (0, distribute_report dev buf [0..<MAX_SENSORS cfg] st1))))"

text \<open>Lines 472-501: the number of fields of an event, by sensor type.\<close>

definition num_fields_of :: "int \<Rightarrow> nat" where
  "num_fields_of t =
     (if t = SENSOR_TYPE_ACCELEROMETER \<or> t = SENSOR_TYPE_MAGNETIC_FIELD
         \<or> t = SENSOR_TYPE_ORIENTATION \<or> t = SENSOR_TYPE_GYROSCOPE then 3
      else if t = SENSOR_TYPE_LIGHT \<or> t = SENSOR_TYPE_AMBIENT_TEMPERATURE
         \<or> t = SENSOR_TYPE_TEMPERATURE \<or> t = SENSOR_TYPE_PROXIMITY
         \<or> t = SENSOR_TYPE_PRESSURE \<or> t = SENSOR_TYPE_RELATIVE_HUMIDITY then 1
      else if t = SENSOR_TYPE_ROTATION_VECTOR then 4
      else if t = SENSOR_TYPE_DEVICE_PRIVATE_BASE then 0
      else 0)"

text \<open>Lines 512-517: the fields of a poll-mode sensor.\<close>

fun fill_immediate :: "poll_env \<Rightarrow> nat \<Rightarrow> nat list \<Rightarrow> sensors_event_t \<Rightarrow> sensors_event_t" where
  "fill_immediate pe s [] ev = ev"
| "fill_immediate pe s (c # cs) ev =
     fill_immediate pe s cs (ev\<lparr>data := (data ev)[c := acquire_immediate_value pe s c]\<rparr>)"

text \<open>
  Lines 525-534: the fields of a trigger-mode sensor; the accumulator is the position of
  \<open>current_sample\<close> in the report buffer and the event.
\<close>

fun fill_transformed ::
  "sensor_info_t \<Rightarrow> nat \<Rightarrow> nat list \<Rightarrow> int \<times> sensors_event_t \<Rightarrow> int \<times> sensors_event_t" where
  "fill_transformed x s [] acc = acc"
| "fill_transformed x s (c # cs) acc =
     fill_transformed x s cs
       (fst acc + size_ch (channel x c),
        (snd acc)\<lparr>data := (data (snd acc))
           [c := ops_transform x s c (drop (nat (fst acc)) (report_buffer x))]\<rparr>)"

definition propagate_sensor_report ::
  "config \<Rightarrow> poll_env \<Rightarrow> nat \<Rightarrow> hal_state \<Rightarrow> sensors_event_t \<times> hal_state" where
  "propagate_sensor_report cfg pe s st =
     (let i = catalog_index (sensor_info st s);
          stype = cat_type (sensor_catalog cfg i);
          (ts, st1) = read_clock pe st;
          ev = \<lparr>version = sizeof_sensors_event_t cfg, sensor = int s,
                sensor_type = stype, timestamp = ts, data = replicate 16 0\<rparr>;
          num_fields = num_fields_of stype;
          (ts2, st2) = read_clock pe st1;
          st3 = upd_sensor s (\<lambda>x. x\<lparr>last_integration_ts := ts2\<rparr>) st2;
          x = sensor_info st3 s
      in
      if num_channels x = 0 then
        (ops_finalize x s (fill_immediate pe s [0..<num_fields] ev), st3)
      else
        (ops_finalize x s (snd (fill_transformed x s [0..<num_fields] (0, ev))), st3))"

subsection \<open>get_poll_time\<close>

text \<open>Lines 552-563: the earliest deadline over the enabled poll-mode sensors.\<close>

fun lowest_target :: "hal_state \<Rightarrow> nat list \<Rightarrow> int \<Rightarrow> int" where
  "lowest_target st [] lowest_target_ts = lowest_target_ts"
| "lowest_target st (s # ss) lowest_target_ts =
     (let x = sensor_info st s in
      if enable_count x \<noteq> 0 \<and> sampling_rate x \<noteq> 0 \<and> num_channels x = 0 then
        (let target_ts = last_integration_ts x + c_div 1000000000 (sampling_rate x) in
         lowest_target st ss (if target_ts < lowest_target_ts then target_ts else lowest_target_ts))
      else lowest_target st ss lowest_target_ts)"

definition get_poll_time :: "poll_env \<Rightarrow> hal_state \<Rightarrow> int \<times> hal_state" where
  "get_poll_time pe st =
     (if active_poll_sensors st = 0 then (- 1, st)
      else
        (let lowest_target_ts = lowest_target st [0..<sensor_count st] INT64_MAX in
         if lowest_target_ts = INT64_MAX then (- 1, st)
         else
           (let (current_ts, st1) = read_clock pe st in
            if lowest_target_ts \<le> current_ts then (0, st1)
            else (to_int (c_div (lowest_target_ts - current_ts) 1000000), st1))))"

subsection \<open>sensor_poll\<close>

definition acknowledge_release :: "hal_state \<Rightarrow> hal_state" where
  "acknowledge_release st = emit Wakeup_read st"

text \<open>
  Lines 598-606, under the label \<^verbatim>\<open>return_first_available_sensor_report\<close>: \<open>Some\<close> when
  the function returns 1 there, with the event and the state.
\<close>

definition return_first_available_sensor_report ::
  "config \<Rightarrow> poll_env \<Rightarrow> hal_state \<Rightarrow> (sensors_event_t \<times> hal_state) option" where
  "return_first_available_sensor_report cfg pe st =
     (case find (\<lambda>s. report_pending (sensor_info st s) \<noteq> 0) [0..<sensor_count st] of
        None \<Rightarrow> None
      | Some s \<Rightarrow>
          (let (ev, st1) = propagate_sensor_report cfg pe s st in
           Some (ev, upd_sensor s (\<lambda>x. x\<lparr>report_pending := 0\<rparr>) st1)))"

text \<open>Lines 610-613: the minimum interval between poll operations.\<close>

definition keep_min_interval :: "poll_env \<Rightarrow> hal_state \<Rightarrow> hal_state" where
  "keep_min_interval pe st =
     (let (now, st1) = read_clock pe st;
          delta = to_int (c_div (now - last_poll_exit_ts st1) 1000)
      in
      if delta > 0 \<and> delta < POLL_MIN_INTERVAL then emit (Usleep (POLL_MIN_INTERVAL - delta)) st1
      else st1)"

text \<open>
  Lines 629-637: the signalled events in order. \<open>True\<close> is the \<^verbatim>\<open>goto await_event\<close> taken
  after the wake-up byte was read.
\<close>

fun dispatch_events :: "config \<Rightarrow> wait_step \<Rightarrow> (int \<times> int) list \<Rightarrow> hal_state \<Rightarrow> bool \<times> hal_state" where
  "dispatch_events cfg w [] st = (False, st)"
| "dispatch_events cfg w (ev # evs) st =
     (if fst ev = EPOLLIN then
        (if snd ev = INVALID_DEV_NUM then (True, acknowledge_release st)
         else dispatch_events cfg w evs (snd (integrate_device_report cfg w (to_int (snd ev)) st)))
      else dispatch_events cfg w evs st)"

text \<open>Lines 640-644.\<close>

fun mark_poll_sensors :: "nat list \<Rightarrow> hal_state \<Rightarrow> hal_state" where
  "mark_poll_sensors [] st = st"
| "mark_poll_sensors (s # ss) st =
     mark_poll_sensors ss
       (if enable_count (sensor_info st s) \<noteq> 0 \<and> num_channels (sensor_info st s) = 0
        then upd_sensor s (\<lambda>x. x\<lparr>report_pending := 1\<rparr>) st else st)"

definition invalidate_poll_sensors :: "hal_state \<Rightarrow> hal_state" where
  "invalidate_poll_sensors st =
     (if active_poll_sensors st \<noteq> 0 then mark_poll_sensors [0..<sensor_count st] st else st)"

text \<open>
  Lines 607-646, under the label \<^verbatim>\<open>await_event\<close>. The list holds what the successive
  calls of \<^verbatim>\<open>epoll_wait\<close> deliver; when it is used up the function is still inside
  \<^verbatim>\<open>epoll_wait\<close> (\<open>Blocked\<close>).
\<close>

fun await_event :: "config \<Rightarrow> poll_env \<Rightarrow> wait_step list \<Rightarrow> hal_state \<Rightarrow> poll_outcome" where
  "await_event cfg pe [] st =
     (let st1 = keep_min_interval pe st;
          tm = get_poll_time pe st1
      in Blocked (emit (Epoll_wait (fst tm)) (snd tm)))"
| "await_event cfg pe (w # ws) st =
     (let st1 = keep_min_interval pe st;
          tm = get_poll_time pe st1;
          st2 = emit (Epoll_wait (fst tm)) (snd tm);
          ts = read_clock pe st2;
          st3 = (snd ts)\<lparr>last_poll_exit_ts := fst ts\<rparr>
      in
      case wait_events w of
        None \<Rightarrow> await_event cfg pe ws st3
      | Some evs \<Rightarrow>
          (let d = dispatch_events cfg w evs st3 in
           if fst d then await_event cfg pe ws (snd d)
           else
             (let st4 = invalidate_poll_sensors (snd d) in
              case return_first_available_sensor_report cfg pe st4 of
                Some r \<Rightarrow> Returned 1 (fst r) (snd r)
              | None \<Rightarrow> await_event cfg pe ws st4)))"

definition sensor_poll :: "config \<Rightarrow> poll_env \<Rightarrow> wait_step list \<Rightarrow> hal_state \<Rightarrow> poll_outcome" where
  "sensor_poll cfg pe ws st =
     (case return_first_available_sensor_report cfg pe st of
        Some r \<Rightarrow> Returned 1 (fst r) (snd r)
      | None \<Rightarrow> await_event cfg pe ws st)"

subsection \<open>A concrete installation\<close>

text \<open>
  Device 0 carries sensor 0, poll-mode, and sensor 1, trigger-mode with two 16-bit
  channels; sensor 2 is a trigger-mode sensor with one channel on device 1.
\<close>

definition ex_info :: datum_info_t where
  "ex_info = \<lparr>sign = CHR ''s'', endianness = CHR ''l'', realbits = 16, shift = 0, storagebits = 16\<rparr>"

definition ex_desc :: "nat \<Rightarrow> channel_descriptor_t" where
  "ex_desc c =
     (if c = 0 then \<lparr>en_path = ''x_en'', type_path = ''x_type'', index_path = ''x_index''\<rparr>
      else \<lparr>en_path = ''y_en'', type_path = ''y_type'', index_path = ''y_index''\<rparr>)"

definition ex_cfg :: config where
  "ex_cfg = \<lparr>MAX_DEVICES = 8, MAX_SENSORS = 4, MAX_CHANNELS = 2, MAX_SENSOR_REPORT_SIZE = 32,
     sizeof_sensors_event_t = 104,
     sensor_catalog = (\<lambda>i. \<lparr>tag = ''in_accel'', cat_type = (if i = 0 then 5 else 1),
                            channel_desc = ex_desc\<rparr>),
     decode_type_spec = (\<lambda>spec. (if spec = ''le:s16/16>>0'' then 2 else 0, ex_info))\<rparr>"

definition ex_channel :: channel_info_t where
  "ex_channel = \<lparr>offset = 0, size_ch = 0, type_spec = [], type_info = ex_info\<rparr>"

definition ex_sensor :: "int \<Rightarrow> nat \<Rightarrow> nat \<Rightarrow> sensor_info_t" where
  "ex_sensor dev i n =
     \<lparr>friendly_name = ''sensor'', internal_name = ''accel'', dev_num = dev, catalog_index = i,
      num_channels = n, channel = (\<lambda>_. ex_channel), enable_count = 0, sampling_rate = 0,
      last_integration_ts = 0, report_buffer = replicate 32 0, report_pending = 0,
      ops_transform = (\<lambda>s c bytes. 0), ops_finalize = (\<lambda>s ev. ev)\<rparr>"

definition ex_state :: hal_state where
  "ex_state =
     \<lparr>sensor_info = (\<lambda>s. if s = 0 then ex_sensor 0 0 0
                          else if s = 1 then ex_sensor 0 1 2
                          else ex_sensor 1 1 1),
      sensor_count = 3,
      poll_sensors_per_dev = (\<lambda>_. 0), trig_sensors_per_dev = (\<lambda>_. 0), device_fd = (\<lambda>_. - 1),
      active_poll_sensors = 0, last_poll_exit_ts = 0, poll_set = {}, clock_reads = 0,
      trace = []\<rparr>"

text \<open>
  An environment in which every channel reads as enabled, of type \<^verbatim>\<open>le:s16/16>>0\<close>, the
  x channel at scan index 0 and the y channel at scan index 1, \<^verbatim>\<open>open\<close> returns
  descriptor \<open>7 + dev\<close> and \<^verbatim>\<open>epoll_ctl\<close> succeeds.
\<close>

definition ex_env :: env where
  "ex_env =
     \<lparr>sysfs_int = (\<lambda>p. case p of
          CHANNEL_PATH d a \<Rightarrow>
            (if a = ''x_en'' \<or> a = ''y_en'' then Some 1
             else if a = ''x_index'' then Some 0
             else if a = ''y_index'' then Some 1 else None)
        | _ \<Rightarrow> None),
      sysfs_str = (\<lambda>p. Some ''le:s16/16>>0''),
      open_res = (\<lambda>dev. 7 + dev),
      epoll_add_res = (\<lambda>fd. 0)\<rparr>"

subsection \<open>Reading a poll outcome\<close>

definition outcome_state :: "poll_outcome \<Rightarrow> hal_state" where
  "outcome_state r = (case r of Returned n ev st \<Rightarrow> st | Blocked st \<Rightarrow> st)"

definition outcome_return :: "poll_outcome \<Rightarrow> (int \<times> sensors_event_t) option" where
  "outcome_return r = (case r of Returned n ev st \<Rightarrow> Some (n, ev) | Blocked st \<Rightarrow> None)"


text \<open>A clock that reads 500 ns at the first reading and one more at each later one.\<close>

definition ex_poll_env :: poll_env where
  "ex_poll_env = \<lparr>get_timestamp = (\<lambda>k. 500 + int k), acquire_immediate_value = (\<lambda>s c. 0)\<rparr>"

text \<open>The installation with reports pending on sensors 1 and 2.\<close>

definition ex_pending :: hal_state where
  "ex_pending = ex_state\<lparr>sensor_info := (sensor_info ex_state)
     (1 := (sensor_info ex_state 1)\<lparr>report_pending := 1\<rparr>,
      2 := (sensor_info ex_state 2)\<lparr>report_pending := 1\<rparr>)\<rparr>"


subsection \<open>Vocabulary for the traces of an activation\<close>

text \<open>The kinds of trace entries.\<close>

fun is_sysfs_read :: "effect \<Rightarrow> bool" where
  "is_sysfs_read (Sysfs_read_int p) = True"
| "is_sysfs_read (Sysfs_read_str p) = True"
| "is_sysfs_read _ = False"


text \<open>
  The trigger write and the \<^verbatim>\<open>_en\<close> writes of one activation of sensor \<open>s\<close>, read off the
  state reached after the counter step.
\<close>

definition trigger_writes :: "nat \<Rightarrow> int \<Rightarrow> hal_state \<Rightarrow> effect list" where
  "trigger_writes s dev st =
     (if trig_sensors_per_dev st dev = 0 then [Sysfs_write_str (TRIGGER_PATH dev) ''none'']
      else if trig_sensors_per_dev st dev = 1 then
        [Sysfs_write_str (TRIGGER_PATH dev)
           (internal_name (sensor_info st s) @ ''-dev'' @ dec_int dev)]
      else [])"

definition enable_writes :: "config \<Rightarrow> nat \<Rightarrow> int \<Rightarrow> hal_state \<Rightarrow> effect list" where
  "enable_writes cfg s enabled st =
     map (\<lambda>c. Sysfs_write_int
                (CHANNEL_PATH (dev_num (sensor_info st s))
                   (en_path (channel_desc (sensor_catalog cfg (catalog_index (sensor_info st s))) c)))
                enabled)
         [0..<num_channels (sensor_info st s)]"

text \<open>The environment never answers a read of a scan index with a negative number.\<close>

definition scan_index_nonneg :: "config \<Rightarrow> env \<Rightarrow> bool" where
  "scan_index_nonneg cfg e =
     (\<forall>i c d v. sysfs_int e (CHANNEL_PATH d (index_path (channel_desc (sensor_catalog cfg i) c)))
          = Some v \<longrightarrow> 0 \<le> v)"

text \<open>
  The state without the channel layouts and without the trace: what a layout refresh
  leaves alone.
\<close>

definition control_part :: "hal_state \<Rightarrow> hal_state" where
  "control_part st =
     st\<lparr>sensor_info := (\<lambda>s. (sensor_info st s)\<lparr>channel := (\<lambda>_. ex_channel)\<rparr>), trace := []\<rparr>"

definition only_reads :: "hal_state \<Rightarrow> hal_state \<Rightarrow> bool" where
  "only_reads st st' =
     (control_part st' = control_part st \<and>
      (\<exists>rd. trace st' = trace st @ rd \<and> list_all is_sysfs_read rd))"

text \<open>The environment of the installation, with \<^verbatim>\<open>epoll_ctl\<close> failing.\<close>

definition ex_env_epoll_fails :: env where
  "ex_env_epoll_fails = ex_env\<lparr>epoll_add_res := (\<lambda>fd. - 1)\<rparr>"

subsection \<open>Sequences of activations\<close>

text \<open>
  A run of calls of \<open>sensor_activate\<close> on one sensor, each with its own environment and
  its own \<open>enabled\<close> argument. The result lists the state after each call; it is \<open>None\<close>
  as soon as a call does not return 0.
\<close>

fun activate_run :: "config \<Rightarrow> (env \<times> int) list \<Rightarrow> nat \<Rightarrow> hal_state \<Rightarrow> hal_state list option" where
  "activate_run cfg [] s st = Some []"
| "activate_run cfg (c # cs) s st =
     (case sensor_activate cfg (fst c) s (snd c) st of
        None \<Rightarrow> None
      | Some (r, st') \<Rightarrow>
          if r = 0 then map_option (\<lambda>sts. st' # sts) (activate_run cfg cs s st') else None)"

text \<open>The per-device counters and the global count of poll-mode sensors.\<close>

definition counters :: "hal_state \<Rightarrow> (int \<Rightarrow> int) \<times> (int \<Rightarrow> int) \<times> int" where
  "counters st = (poll_sensors_per_dev st, trig_sensors_per_dev st, active_poll_sensors st)"

text \<open>The counters after the first enable of sensor \<open>s\<close> (lines 241-262 with \<open>enabled\<close> set).\<close>

definition counters_after_enable :: "nat \<Rightarrow> hal_state \<Rightarrow> (int \<Rightarrow> int) \<times> (int \<Rightarrow> int) \<times> int" where
  "counters_after_enable s st =
     counters (snd (adjust_device_counters s 1 (dev_num (sensor_info st s)) st))"

text \<open>Two enables and two disables of sensor 1 of the installation.\<close>

definition ex_round_trip :: "hal_state list" where
  "ex_round_trip =
     the (activate_run ex_cfg
            (map (\<lambda>e. (e, 1)) [ex_env, ex_env] @ map (\<lambda>e. (e, 0)) [ex_env, ex_env]) 1 ex_state)"

text \<open>The state with the enable count of sensor \<open>s\<close> set to \<open>c\<close>.\<close>

definition set_count :: "nat \<Rightarrow> int \<Rightarrow> hal_state \<Rightarrow> hal_state" where
  "set_count s c st = upd_sensor s (\<lambda>x. x\<lparr>enable_count := c\<rparr>) st"

text \<open>
  An environment in which the activation of a sensor of device \<open>dev\<close> cannot fail: scan
  indices are not negative, \<^verbatim>\<open>open\<close> and \<^verbatim>\<open>epoll_ctl\<close> succeed.
\<close>

definition benign :: "config \<Rightarrow> env \<Rightarrow> int \<Rightarrow> bool" where
  "benign cfg e dev =
     (scan_index_nonneg cfg e \<and> open_res e dev \<noteq> - 1 \<and> epoll_add_res e (open_res e dev) \<noteq> - 1)"

text \<open>
  Two variants of the environment of the installation: the \<^verbatim>\<open>_en\<close> attribute of the x
  channel of device 0 reads 0; the scan index of the y channel of device 0 reads 4.
\<close>

definition ex_env_x_off :: env where
  "ex_env_x_off = ex_env\<lparr>sysfs_int :=
     (\<lambda>p. if p = CHANNEL_PATH 0 ''x_en'' then Some 0 else sysfs_int ex_env p)\<rparr>"

definition ex_env_index4 :: env where
  "ex_env_index4 = ex_env\<lparr>sysfs_int :=
     (\<lambda>p. if p = CHANNEL_PATH 0 ''y_index'' then Some 4 else sysfs_int ex_env p)\<rparr>"

text \<open>A transform callback that yields the first byte of the sample it is given.\<close>

definition ex_first_byte :: "nat \<Rightarrow> nat \<Rightarrow> 8 word list \<Rightarrow> real" where
  "ex_first_byte s c bytes = (case bytes of [] \<Rightarrow> 0 | b # bs \<Rightarrow> real (unat b))"

text \<open>
  The installation with sensor 1 enabled, its two channels of 2 bytes each laid out, a
  report in its buffer and the report pending.
\<close>

definition ex_report :: hal_state where
  "ex_report = ex_state\<lparr>sensor_info := (sensor_info ex_state)
     (1 := (sensor_info ex_state 1)\<lparr>report_pending := 1, enable_count := 1,
             channel := (\<lambda>c. if c < 2 then ex_channel\<lparr>offset := 2 * int c, size_ch := 2\<rparr>
                               else ex_channel),
             report_buffer := [1, 2, 3, 4, 5, 6] @ replicate 26 0,
             ops_transform := ex_first_byte\<rparr>)\<rparr>"

section \<open>Properties\<close>

subsection \<open>Arithmetic helpers\<close>

lemma c_div_nonneg: "0 \<le> a \<Longrightarrow> 0 < b \<Longrightarrow> c_div a b = a div b"
  by (cases "a = 0") (simp_all add: c_div_def)

lemma to_int_id: "- 2147483648 \<le> x \<Longrightarrow> x < 2147483648 \<Longrightarrow> to_int x = x"
  by (simp add: to_int_def)

lemma new_rate_bounds:
  assumes "1 \<le> ns"
  shows "0 \<le> 1000000000 div ns" and "1000000000 div ns \<le> (1000000000::int)"
proof -
  show "0 \<le> 1000000000 div ns" using assms by (simp add: pos_imp_zdiv_nonneg_iff)
  have "1000000000 div ns \<le> 1000000000 div (1::int)"
    using assms by (intro zdiv_mono2) simp_all
  then show "1000000000 div ns \<le> (1000000000::int)" by simp
qed

subsection \<open>The sampling rate\<close>

lemma sensor_set_delay_stores:
  assumes "ns \<noteq> 0"
  shows "sampling_rate (sensor_info (snd (sensor_set_delay cfg e s ns st)) s) =
           (if to_int (c_div 1000000000 ns) = 0 then 1 else to_int (c_div 1000000000 ns))"
    and "fst (sensor_set_delay cfg e s ns st) = 0"
  using assms
  by (simp_all add: sensor_set_delay_def Let_def emit_def enable_buffer_def sysfs_write_int_def
      upd_sensor_def split: option.splits)

text \<open>
  Claim C9. \<open>sensor_set_delay\<close> answers a delay of 0 with \<open>-EINVAL\<close> and leaves the whole
  state, trace included, as it was. For every delay \<open>ns \<ge> 1\<close> it returns 0 and the
  stored sampling rate of the sensor is \<open>max 1 (10^9 div ns)\<close>; for a delay above
  \<open>10^9\<close> ns the stored rate is 1.
\<close>

theorem sensor_set_delay_rate:
  "sensor_set_delay cfg e s 0 st = (- EINVAL, st) \<and>
   (1 \<le> ns \<longrightarrow>
      fst (sensor_set_delay cfg e s ns st) = 0 \<and>
      sampling_rate (sensor_info (snd (sensor_set_delay cfg e s ns st)) s)
        = max 1 (1000000000 div ns)) \<and>
   (1000000000 < ns \<longrightarrow>
      sampling_rate (sensor_info (snd (sensor_set_delay cfg e s ns st)) s) = 1)"
proof (intro conjI impI)
  show "sensor_set_delay cfg e s 0 st = (- EINVAL, st)"
    by (simp add: sensor_set_delay_def)
next
  assume ns: "1 \<le> ns"
  then show "fst (sensor_set_delay cfg e s ns st) = 0"
    by (simp add: sensor_set_delay_stores)
  have q: "to_int (c_div 1000000000 ns) = 1000000000 div ns"
    using ns new_rate_bounds [OF ns] by (simp add: c_div_nonneg to_int_id)
  show "sampling_rate (sensor_info (snd (sensor_set_delay cfg e s ns st)) s)
        = max 1 (1000000000 div ns)"
    using ns new_rate_bounds(1) [OF ns] by (simp add: sensor_set_delay_stores q max_def)
next
  assume big: "1000000000 < ns"
  then have q: "to_int (c_div 1000000000 ns) = 0"
    by (simp add: c_div_nonneg to_int_id div_pos_pos_trivial)
  show "sampling_rate (sensor_info (snd (sensor_set_delay cfg e s ns st)) s) = 1"
    using big by (simp add: sensor_set_delay_stores q)
qed

theorem sensor_set_delay_rate_witness:
  "sensor_set_delay ex_cfg ex_env 0 0 ex_state = (- EINVAL, ex_state) \<and>
   (1::int) \<le> 20000000 \<and>
   fst (sensor_set_delay ex_cfg ex_env 0 20000000 ex_state) = 0 \<and>
   sampling_rate (sensor_info (snd (sensor_set_delay ex_cfg ex_env 0 20000000 ex_state)) 0) = 50 \<and>
   (1000000000::int) < 3000000000 \<and>
   sampling_rate (sensor_info (snd (sensor_set_delay ex_cfg ex_env 0 3000000000 ex_state)) 0) = 1"
  using sensor_set_delay_rate [of ex_cfg ex_env 0 ex_state 20000000]
        sensor_set_delay_rate [of ex_cfg ex_env 0 ex_state 3000000000]
  by simp

subsection \<open>A disable with no enable before it\<close>

text \<open>
  Claim C7. Disabling a sensor whose enable count is 0 returns -1 (the InvalidState
  answer of \<open>adjust_counters\<close>) and the state returned is the state given: no counter, no
  file descriptor, no entry of the poll set changes, and nothing is added to the trace
  (no sysfs access, no wake-up byte).
\<close>

theorem spurious_disable:
  "enable_count (sensor_info st s) = 0 \<Longrightarrow> sensor_activate cfg e s 0 st = Some (- 1, st)"
  by (simp add: sensor_activate_def adjust_counters_def adjust_enable_count_def)

theorem spurious_disable_witness:
  "enable_count (sensor_info ex_state 1) = 0 \<and>
   sensor_activate ex_cfg ex_env 1 0 ex_state = Some (- 1, ex_state)"
  using spurious_disable [of ex_state 1 ex_cfg ex_env]
  by (simp add: ex_state_def ex_sensor_def)

subsection \<open>Pending reports are returned first\<close>

lemma find_app:
  "find P (xs @ ys) = (case find P xs of None \<Rightarrow> find P ys | Some x \<Rightarrow> Some x)"
  by (induction xs) auto

lemma find_upt_first:
  "s < n \<Longrightarrow> P s \<Longrightarrow> (\<And>k. k < s \<Longrightarrow> \<not> P k) \<Longrightarrow> find P [0..<n] = Some s"
proof (induction n)
  case 0
  then show ?case by simp
next
  case (Suc n)
  show ?case
  proof (cases "s < n")
    case True
    then have "find P [0..<n] = Some s" using Suc by blast
    then show ?thesis by (simp add: find_app)
  next
    case False
    then have sn: "s = n" using Suc.prems(1) by simp
    have "find P [0..<n] = None"
      using Suc.prems(3) sn by (auto simp: find_None_iff)
    then show ?thesis using Suc.prems(2) sn by (simp add: find_app)
  qed
qed

lemma propagate_trace: "trace (snd (propagate_sensor_report cfg pe s st)) = trace st"
  by (simp add: propagate_sensor_report_def Let_def read_clock_def upd_sensor_def split: prod.splits)

lemma propagate_pending:
  "report_pending (sensor_info (snd (propagate_sensor_report cfg pe s st)) k)
     = report_pending (sensor_info st k)"
  by (simp add: propagate_sensor_report_def Let_def read_clock_def upd_sensor_def split: prod.splits)

lemma num_fields_of_codes:
  "num_fields_of t =
     (if t \<in> {1, 2, 3, 4} then 3 else if t \<in> {5, 6, 7, 8, 12, 13} then 1
      else if t = 11 then 4 else 0)"
  by (simp add: num_fields_of_def SENSOR_TYPE_ACCELEROMETER_def SENSOR_TYPE_MAGNETIC_FIELD_def
      SENSOR_TYPE_ORIENTATION_def SENSOR_TYPE_GYROSCOPE_def SENSOR_TYPE_LIGHT_def
      SENSOR_TYPE_PRESSURE_def SENSOR_TYPE_TEMPERATURE_def SENSOR_TYPE_PROXIMITY_def
      SENSOR_TYPE_ROTATION_VECTOR_def SENSOR_TYPE_RELATIVE_HUMIDITY_def
      SENSOR_TYPE_AMBIENT_TEMPERATURE_def SENSOR_TYPE_DEVICE_PRIVATE_BASE_def)

lemma num_fields_of_le: "num_fields_of t \<le> 4"
  by (simp add: num_fields_of_codes)

lemma fill_immediate_header:
  "version (fill_immediate pe s cs ev) = version ev"
  "sensor (fill_immediate pe s cs ev) = sensor ev"
  "sensor_type (fill_immediate pe s cs ev) = sensor_type ev"
  "timestamp (fill_immediate pe s cs ev) = timestamp ev"
  "length (data (fill_immediate pe s cs ev)) = length (data ev)"
  by (induction cs arbitrary: ev; simp)+

lemma fill_immediate_data:
  "c < length (data ev) \<Longrightarrow>
   data (fill_immediate pe s cs ev) ! c
     = (if c \<in> set cs then acquire_immediate_value pe s c else data ev ! c)"
  by (induction cs arbitrary: ev) (auto simp: nth_list_update)

lemma fill_transformed_header:
  "version (snd (fill_transformed x s cs acc)) = version (snd acc)"
  "sensor (snd (fill_transformed x s cs acc)) = sensor (snd acc)"
  "sensor_type (snd (fill_transformed x s cs acc)) = sensor_type (snd acc)"
  "timestamp (snd (fill_transformed x s cs acc)) = timestamp (snd acc)"
  "length (data (snd (fill_transformed x s cs acc))) = length (data (snd acc))"
  by (induction cs arbitrary: acc; simp)+

lemma fill_transformed_data:
  "c < length (data (snd acc)) \<Longrightarrow>
   data (snd (fill_transformed x s [a..<b] acc)) ! c
     = (if a \<le> c \<and> c < b then
          ops_transform x s c
            (drop (nat (fst acc + sum_list (map (\<lambda>k. size_ch (channel x k)) [a..<c])))
               (report_buffer x))
        else data (snd acc) ! c)"
proof (induction "b - a" arbitrary: a acc)
  case 0
  then show ?case by simp
next
  case (Suc n)
  then have ab: "a < b" and n: "n = b - Suc a" by simp_all
  have l: "[a..<b] = a # [Suc a..<b]" using ab by (simp add: upt_conv_Cons)
  define acc' where "acc' = (fst acc + size_ch (channel x a),
        (snd acc)\<lparr>data := (data (snd acc))
           [a := ops_transform x s a (drop (nat (fst acc)) (report_buffer x))]\<rparr>)"
  have len: "c < length (data (snd acc'))" using Suc.prems by (simp add: acc'_def)
  have step: "fill_transformed x s [a..<b] acc = fill_transformed x s [Suc a..<b] acc'"
    by (simp add: l acc'_def)
  note ih = Suc.hyps(1) [OF n len]
  show ?case
  proof (cases "Suc a \<le> c \<and> c < b")
    case True
    then have "[a..<c] = a # [Suc a..<c]" by (simp add: upt_conv_Cons)
    then show ?thesis using True ih by (simp add: step acc'_def add.assoc)
  next
    case False
    show ?thesis
    proof (cases "c = a")
      case True
      then show ?thesis using ih Suc.prems ab
        by (simp add: step acc'_def)
    next
      case ne: False
      with False have "\<not> (a \<le> c \<and> c < b)" by auto
      then show ?thesis using ih False ne
        by (auto simp: step acc'_def)
    qed
  qed
qed

lemma propagate_event:
  "\<exists>ev. fst (propagate_sensor_report cfg pe s st) = ops_finalize (sensor_info st s) s ev \<and>
      version ev = sizeof_sensors_event_t cfg \<and>
      sensor ev = int s \<and>
      sensor_type ev = cat_type (sensor_catalog cfg (catalog_index (sensor_info st s))) \<and>
      timestamp ev = get_timestamp pe (clock_reads st) \<and>
      length (data ev) = 16 \<and>
      (\<forall>c. c < 16 \<longrightarrow>
         data ev ! c =
           (if c < num_fields_of (cat_type (sensor_catalog cfg (catalog_index (sensor_info st s))))
            then (if num_channels (sensor_info st s) = 0 then acquire_immediate_value pe s c
                  else ops_transform (sensor_info st s) s c
                         (drop (nat (sum_list (map (\<lambda>k. size_ch (channel (sensor_info st s) k))
                                                 [0..<c])))
                            (report_buffer (sensor_info st s))))
            else 0))"
proof -
  define stype where "stype = cat_type (sensor_catalog cfg (catalog_index (sensor_info st s)))"
  define ev0 where "ev0 = \<lparr>version = sizeof_sensors_event_t cfg, sensor = int s,
      sensor_type = stype, timestamp = get_timestamp pe (clock_reads st),
      data = replicate 16 (0::real)\<rparr>"
  define x where "x = (sensor_info st s)\<lparr>last_integration_ts := get_timestamp pe (Suc (clock_reads st))\<rparr>"
  define ev where "ev = (if num_channels (sensor_info st s) = 0
      then fill_immediate pe s [0..<num_fields_of stype] ev0
      else snd (fill_transformed x s [0..<num_fields_of stype] (0, ev0)))"
  have p: "fst (propagate_sensor_report cfg pe s st) = ops_finalize (sensor_info st s) s ev"
    by (simp add: propagate_sensor_report_def Let_def read_clock_def upd_sensor_def ev_def ev0_def
        x_def stype_def split: prod.splits)
  have hdr: "version ev = sizeof_sensors_event_t cfg" "sensor ev = int s"
      "sensor_type ev = stype" "timestamp ev = get_timestamp pe (clock_reads st)"
      "length (data ev) = 16"
    by (simp_all add: ev_def fill_immediate_header fill_transformed_header ev0_def)
  have d: "data ev ! c =
           (if c < num_fields_of stype
            then (if num_channels (sensor_info st s) = 0 then acquire_immediate_value pe s c
                  else ops_transform (sensor_info st s) s c
                         (drop (nat (sum_list (map (\<lambda>k. size_ch (channel (sensor_info st s) k))
                                                 [0..<c])))
                            (report_buffer (sensor_info st s))))
            else 0)" if "c < 16" for c
  proof (cases "num_channels (sensor_info st s) = 0")
    case True
    then show ?thesis using that
      by (simp add: ev_def fill_immediate_data ev0_def)
  next
    case False
    have "c < length (data (snd (0::int, ev0)))" using that by (simp add: ev0_def)
    from fill_transformed_data [OF this, of x s 0 "num_fields_of stype"] False that
    show ?thesis by (simp add: ev_def ev0_def x_def)
  qed
  show ?thesis
    unfolding stype_def [symmetric]
    by (rule exI [of _ ev]) (simp add: p hdr d)
qed

lemma propagate_integration_ts:
  "last_integration_ts (sensor_info (snd (propagate_sensor_report cfg pe s st)) s)
     = get_timestamp pe (Suc (clock_reads st))"
  by (simp add: propagate_sensor_report_def Let_def read_clock_def upd_sensor_def split: prod.splits)

text \<open>
  Claim C5. Let \<open>s\<close> be the lowest index below \<open>sensor_count\<close> whose sensor has a report
  pending on entry. Then \<open>sensor_poll\<close> returns 1, whatever the wait would deliver; the
  pending flag of \<open>s\<close> is cleared and the flags of the other sensors stay; the trace is
  unchanged: neither \<^verbatim>\<open>usleep\<close> nor \<^verbatim>\<open>epoll_wait\<close> is called; and the last integration
  time of \<open>s\<close> is the second clock reading of the call. The event returned is what the
  finalize callback of \<open>s\<close> makes of an event with these fields: version the size of the
  event structure, sensor \<open>s\<close>, type the catalog type of \<open>s\<close>, timestamp the first clock
  reading of the call, and 16 data fields, of which field \<open>c\<close> below the number of fields
  of the type is the immediate value of field \<open>c\<close> for a sensor without channels, else
  the transform callback applied to the report buffer from the position that is the sum
  of the sizes of channels \<open>0..c-1\<close>; the other data fields are 0. The number of fields
  is 3 for types 1 to 4, 1 for types 5, 6, 7, 8, 12 and 13, 4 for type 11, and 0 otherwise.
\<close>

theorem sensor_poll_pending:
  assumes "s < sensor_count st"
      and "report_pending (sensor_info st s) \<noteq> 0"
      and "\<forall>k. k < s \<longrightarrow> report_pending (sensor_info st k) = 0"
  shows "outcome_return (sensor_poll cfg pe ws st)
           = Some (1, fst (propagate_sensor_report cfg pe s st)) \<and>
         report_pending (sensor_info (outcome_state (sensor_poll cfg pe ws st)) s) = 0 \<and>
         (\<forall>k. k \<noteq> s \<longrightarrow>
            report_pending (sensor_info (outcome_state (sensor_poll cfg pe ws st)) k)
              = report_pending (sensor_info st k)) \<and>
         trace (outcome_state (sensor_poll cfg pe ws st)) = trace st \<and>
         last_integration_ts (sensor_info (outcome_state (sensor_poll cfg pe ws st)) s)
           = get_timestamp pe (Suc (clock_reads st)) \<and>
         (\<exists>ev. outcome_return (sensor_poll cfg pe ws st)
                  = Some (1, ops_finalize (sensor_info st s) s ev) \<and>
            version ev = sizeof_sensors_event_t cfg \<and>
            sensor ev = int s \<and>
            sensor_type ev = cat_type (sensor_catalog cfg (catalog_index (sensor_info st s))) \<and>
            timestamp ev = get_timestamp pe (clock_reads st) \<and>
            length (data ev) = 16 \<and>
            (\<forall>c. c < 16 \<longrightarrow>
               data ev ! c =
                 (if c < num_fields_of
                           (cat_type (sensor_catalog cfg (catalog_index (sensor_info st s))))
                  then (if num_channels (sensor_info st s) = 0
                        then acquire_immediate_value pe s c
                        else ops_transform (sensor_info st s) s c
                               (drop (nat (sum_list
                                  (map (\<lambda>k. size_ch (channel (sensor_info st s) k)) [0..<c])))
                                  (report_buffer (sensor_info st s))))
                  else 0))) \<and>
         (\<forall>t. num_fields_of t =
            (if t \<in> {1, 2, 3, 4} then 3 else if t \<in> {5, 6, 7, 8, 12, 13} then 1
             else if t = 11 then 4 else 0))"
proof -
  have f: "find (\<lambda>k. report_pending (sensor_info st k) \<noteq> 0) [0..<sensor_count st] = Some s"
    using assms by (intro find_upt_first) auto
  have r: "sensor_poll cfg pe ws st =
             Returned 1 (fst (propagate_sensor_report cfg pe s st))
               (upd_sensor s (\<lambda>x. x\<lparr>report_pending := 0\<rparr>)
                  (snd (propagate_sensor_report cfg pe s st)))"
    by (simp add: sensor_poll_def return_first_available_sensor_report_def f split: prod.splits)
  have ret: "outcome_return (sensor_poll cfg pe ws st)
           = Some (1, fst (propagate_sensor_report cfg pe s st))"
    by (simp add: r outcome_return_def)
  have old: "report_pending (sensor_info (outcome_state (sensor_poll cfg pe ws st)) s) = 0 \<and>
         (\<forall>k. k \<noteq> s \<longrightarrow>
            report_pending (sensor_info (outcome_state (sensor_poll cfg pe ws st)) k)
              = report_pending (sensor_info st k)) \<and>
         trace (outcome_state (sensor_poll cfg pe ws st)) = trace st"
    by (simp add: r outcome_state_def upd_sensor_def propagate_trace propagate_pending)
  have ts: "last_integration_ts (sensor_info (outcome_state (sensor_poll cfg pe ws st)) s)
           = get_timestamp pe (Suc (clock_reads st))"
    by (simp add: r outcome_state_def upd_sensor_def propagate_integration_ts)
  from propagate_event [of cfg pe s st] ret old ts num_fields_of_codes
  show ?thesis by (simp only: ret) blast
qed


theorem sensor_poll_pending_witness:
  "1 < sensor_count ex_pending \<and> report_pending (sensor_info ex_pending 1) \<noteq> 0 \<and>
   report_pending (sensor_info ex_pending 0) = 0 \<and>
   outcome_return (sensor_poll ex_cfg ex_poll_env [] ex_pending)
     = Some (1, fst (propagate_sensor_report ex_cfg ex_poll_env 1 ex_pending)) \<and>
   report_pending (sensor_info (outcome_state (sensor_poll ex_cfg ex_poll_env [] ex_pending)) 1) = 0 \<and>
   report_pending (sensor_info (outcome_state (sensor_poll ex_cfg ex_poll_env [] ex_pending)) 2) = 1 \<and>
   trace (outcome_state (sensor_poll ex_cfg ex_poll_env [] ex_pending)) = [] \<and>
   1 < sensor_count ex_report \<and> report_pending (sensor_info ex_report 1) \<noteq> 0 \<and>
   report_pending (sensor_info ex_report 0) = 0 \<and>
   last_integration_ts (sensor_info (outcome_state (sensor_poll ex_cfg ex_poll_env [] ex_report)) 1)
     = 501 \<and>
   fst (the (outcome_return (sensor_poll ex_cfg ex_poll_env [] ex_report))) = 1 \<and>
   version (snd (the (outcome_return (sensor_poll ex_cfg ex_poll_env [] ex_report)))) = 104 \<and>
   sensor (snd (the (outcome_return (sensor_poll ex_cfg ex_poll_env [] ex_report)))) = 1 \<and>
   sensor_type (snd (the (outcome_return (sensor_poll ex_cfg ex_poll_env [] ex_report)))) = 1 \<and>
   timestamp (snd (the (outcome_return (sensor_poll ex_cfg ex_poll_env [] ex_report)))) = 500 \<and>
   length (data (snd (the (outcome_return (sensor_poll ex_cfg ex_poll_env [] ex_report))))) = 16 \<and>
   data (snd (the (outcome_return (sensor_poll ex_cfg ex_poll_env [] ex_report)))) ! 0 = 1 \<and>
   data (snd (the (outcome_return (sensor_poll ex_cfg ex_poll_env [] ex_report)))) ! 1 = 3 \<and>
   data (snd (the (outcome_return (sensor_poll ex_cfg ex_poll_env [] ex_report)))) ! 2 = 5 \<and>
   data (snd (the (outcome_return (sensor_poll ex_cfg ex_poll_env [] ex_report)))) ! 3 = 0 \<and>
   num_fields_of 1 = 3"
proof -
  have p1: "1 < sensor_count ex_pending \<and> report_pending (sensor_info ex_pending 1) \<noteq> 0 \<and>
   report_pending (sensor_info ex_pending 0) = 0 \<and>
   outcome_return (sensor_poll ex_cfg ex_poll_env [] ex_pending)
     = Some (1, fst (propagate_sensor_report ex_cfg ex_poll_env 1 ex_pending)) \<and>
   report_pending (sensor_info (outcome_state (sensor_poll ex_cfg ex_poll_env [] ex_pending)) 1) = 0 \<and>
   report_pending (sensor_info (outcome_state (sensor_poll ex_cfg ex_poll_env [] ex_pending)) 2) = 1 \<and>
   trace (outcome_state (sensor_poll ex_cfg ex_poll_env [] ex_pending)) = []"
    using sensor_poll_pending [of 1 ex_pending ex_cfg ex_poll_env "[]"]
    by (simp add: ex_pending_def ex_state_def ex_sensor_def)
  have h: "1 < sensor_count ex_report" "report_pending (sensor_info ex_report 1) \<noteq> 0"
      "\<forall>k. k < 1 \<longrightarrow> report_pending (sensor_info ex_report k) = 0"
    by (simp_all add: ex_report_def ex_state_def ex_sensor_def)
  have i: "ops_finalize (sensor_info ex_report 1) = (\<lambda>s ev. ev)"
      "num_channels (sensor_info ex_report 1) = 2"
      "cat_type (sensor_catalog ex_cfg (catalog_index (sensor_info ex_report 1))) = 1"
      "sizeof_sensors_event_t ex_cfg = 104"
      "get_timestamp ex_poll_env (clock_reads ex_report) = 500"
      "get_timestamp ex_poll_env (Suc (clock_reads ex_report)) = 501"
    by (simp_all add: ex_report_def ex_state_def ex_sensor_def ex_cfg_def ex_poll_env_def)
  have tr: "ops_transform (sensor_info ex_report (Suc 0)) = ex_first_byte"
      "report_buffer (sensor_info ex_report (Suc 0)) = [1, 2, 3, 4, 5, 6] @ replicate 26 0"
    by (simp_all add: ex_report_def)
  have sz: "\<And>k. size_ch (channel (sensor_info ex_report (Suc 0)) k) = (if k < 2 then 2 else 0)"
    by (simp add: ex_report_def ex_channel_def)
  note t = sensor_poll_pending [OF h(1) h(2) h(3), of ex_cfg ex_poll_env "[]"]
  from t obtain ev where
    r: "outcome_return (sensor_poll ex_cfg ex_poll_env [] ex_report) = Some (1, ev)" and
    f: "version ev = 104" "sensor ev = 1" "sensor_type ev = 1" "timestamp ev = 500"
       "length (data ev) = 16" and
    d: "\<And>c. c < 16 \<Longrightarrow> data ev ! c =
          (if c < num_fields_of 1
           then ops_transform (sensor_info ex_report 1) 1 c
                  (drop (nat (sum_list (map (\<lambda>k. size_ch (channel (sensor_info ex_report 1) k))
                                          [0..<c])))
                     (report_buffer (sensor_info ex_report 1)))
           else 0)"
    unfolding i by auto
  from t have nf: "num_fields_of 1 = 3" by simp
  from t have li: "last_integration_ts
      (sensor_info (outcome_state (sensor_poll ex_cfg ex_poll_env [] ex_report)) 1) = 501"
    unfolding i by simp
  have d0: "data ev ! 0 = 1" using d [of 0] by (simp add: nf sz tr ex_first_byte_def)
  have d1: "data ev ! 1 = 3" using d [of 1] by (simp add: nf sz tr ex_first_byte_def)
  have u: "[0..<2] = [0, Suc 0]" by (simp add: numeral_2_eq_2)
  have d2: "data ev ! 2 = 5" using d [of 2] by (simp add: nf sz tr ex_first_byte_def u)
  have d3: "data ev ! 3 = 0" using d [of 3] by (simp add: nf)
  have h0: "report_pending (sensor_info ex_report 0) = 0" using h(3) by simp
  have p2: "1 < sensor_count ex_report \<and> report_pending (sensor_info ex_report 1) \<noteq> 0 \<and>
   report_pending (sensor_info ex_report 0) = 0 \<and>
   last_integration_ts (sensor_info (outcome_state (sensor_poll ex_cfg ex_poll_env [] ex_report)) 1)
     = 501 \<and>
   fst (the (outcome_return (sensor_poll ex_cfg ex_poll_env [] ex_report))) = 1 \<and>
   version (snd (the (outcome_return (sensor_poll ex_cfg ex_poll_env [] ex_report)))) = 104 \<and>
   sensor (snd (the (outcome_return (sensor_poll ex_cfg ex_poll_env [] ex_report)))) = 1 \<and>
   sensor_type (snd (the (outcome_return (sensor_poll ex_cfg ex_poll_env [] ex_report)))) = 1 \<and>
   timestamp (snd (the (outcome_return (sensor_poll ex_cfg ex_poll_env [] ex_report)))) = 500 \<and>
   length (data (snd (the (outcome_return (sensor_poll ex_cfg ex_poll_env [] ex_report))))) = 16 \<and>
   data (snd (the (outcome_return (sensor_poll ex_cfg ex_poll_env [] ex_report)))) ! 0 = 1 \<and>
   data (snd (the (outcome_return (sensor_poll ex_cfg ex_poll_env [] ex_report)))) ! 1 = 3 \<and>
   data (snd (the (outcome_return (sensor_poll ex_cfg ex_poll_env [] ex_report)))) ! 2 = 5 \<and>
   data (snd (the (outcome_return (sensor_poll ex_cfg ex_poll_env [] ex_report)))) ! 3 = 0 \<and>
   num_fields_of 1 = 3"
    using h(1,2) h0 li f d0 d1 d2 d3 nf by (simp add: r)
  from p1 p2 show ?thesis by blast
qed

subsection \<open>The minimum interval between poll operations\<close>







subsection \<open>The layout refresh only reads\<close>

lemma control_part_emit [simp]: "control_part (emit x st) = control_part st"
  by (simp add: control_part_def emit_def)

lemma control_part_upd_channel [simp]: "control_part (upd_channel s c f st) = control_part st"
  by (simp add: control_part_def upd_channel_def upd_sensor_def fun_eq_iff)

lemma trace_emit [simp]: "trace (emit x st) = trace st @ [x]"
  by (simp add: emit_def)

lemma trace_upd_channel [simp]: "trace (upd_channel s c f st) = trace st"
  by (simp add: upd_channel_def upd_sensor_def)

lemma trace_upd_sensor [simp]: "trace (upd_sensor s f st) = trace st"
  by (simp add: upd_sensor_def)

lemma only_reads_refl [simp]: "only_reads st st"
  by (simp add: only_reads_def)

lemma only_reads_trans: "only_reads a b \<Longrightarrow> only_reads b c \<Longrightarrow> only_reads a c"
  by (auto simp: only_reads_def)

lemma scan_channel_only_reads:
  "scan_channel cfg e s c (st, m) = Some (st', m') \<Longrightarrow> only_reads st st'"
  by (auto simp: scan_channel_def Let_def only_reads_def split: option.splits if_splits)

lemma scan_channels_only_reads:
  "scan_channels cfg e s cs (st, m) = Some (st', m') \<Longrightarrow> only_reads st st'"
proof (induction cs arbitrary: st m)
  case Nil
  then show ?case by simp
next
  case (Cons c cs)
  from Cons.prems obtain st1 m1 where
    a: "scan_channel cfg e s c (st, m) = Some (st1, m1)" and
    b: "scan_channels cfg e s cs (st1, m1) = Some (st', m')"
    by (auto split: option.splits)
  from scan_channel_only_reads [OF a] Cons.IH [OF b] show ?case
    by (rule only_reads_trans)
qed

lemma scan_sensors_only_reads:
  "scan_sensors cfg e dev ss (st, m) = Some (st', m') \<Longrightarrow> only_reads st st'"
proof (induction ss arbitrary: st m)
  case Nil
  then show ?case by simp
next
  case (Cons s ss)
  show ?case
  proof (cases "dev_num (sensor_info st s) \<noteq> dev")
    case True
    with Cons show ?thesis by simp
  next
    case False
    with Cons.prems obtain st1 m1 where
      a: "scan_channels cfg e s [0..<num_channels (sensor_info st s)] (st, m) = Some (st1, m1)" and
      b: "scan_sensors cfg e dev ss (st1, m1) = Some (st', m')"
      by (auto split: option.splits)
    from scan_channels_only_reads [OF a] Cons.IH [OF b] show ?thesis
      by (rule only_reads_trans)
  qed
qed

lemma assign_offsets_only_reads:
  "only_reads st (snd acc) \<Longrightarrow> only_reads st (snd (assign_offsets m is acc))"
proof (induction "is" arbitrary: acc)
  case Nil
  then show ?case by simp
next
  case (Cons i "is")
  show ?case
  proof (cases "channel_size_from_index m i = 0")
    case True
    with Cons show ?thesis by simp
  next
    case False
    have "only_reads st (upd_channel (sensor_handle_from_index m i) (channel_number_from_index m i)
            (\<lambda>ch. ch\<lparr>offset := fst acc, size_ch := channel_size_from_index m i\<rparr>) (snd acc))"
      using Cons.prems by (simp add: only_reads_def)
    with Cons.IH False show ?thesis by (simp add: Let_def)
  qed
qed

lemma refresh_only_reads:
  assumes "refresh_sensor_report_maps cfg e dev st = Some st'"
  shows "only_reads st st'"
proof -
  from assms obtain st1 m where
    a: "scan_sensors cfg e dev [0..<sensor_count st] (st, empty_maps) = Some (st1, m)" and
    b: "st' = snd (assign_offsets m [0..<MAX_SENSORS cfg * MAX_CHANNELS cfg] (0, st1))"
    by (auto simp: refresh_sensor_report_maps_def split: option.splits)
  from scan_sensors_only_reads [OF a] have "only_reads st (snd (0::int, st1))" by simp
  from assign_offsets_only_reads [OF this] b show ?thesis by simp
qed

subsection \<open>The trace of the buffer reconfiguration\<close>

lemma write_channel_enables_eq:
  "write_channel_enables cfg s enabled cs st =
     st\<lparr>trace := trace st @
        map (\<lambda>c. Sysfs_write_int
                (CHANNEL_PATH (dev_num (sensor_info st s))
                   (en_path (channel_desc (sensor_catalog cfg (catalog_index (sensor_info st s))) c)))
                enabled) cs\<rparr>"
  by (induction cs arbitrary: st) (simp_all add: sysfs_write_int_def emit_def)

lemma configure_trigger_eq:
  "configure_trigger s dev st = st\<lparr>trace := trace st @ trigger_writes s dev st\<rparr>"
  by (simp add: configure_trigger_def trigger_writes_def setup_trigger_def sysfs_write_str_def
      emit_def)

lemma enable_buffer_eq: "enable_buffer dev v st = emit (Sysfs_write_int (ENABLE_PATH dev) v) st"
  by (simp add: enable_buffer_def sysfs_write_int_def)

lemma control_part_trace_upd [simp]: "control_part (st\<lparr>trace := t\<rparr>) = control_part st"
  by (simp add: control_part_def)

lemma trigger_writes_trace_upd [simp]:
  "trigger_writes s dev (st\<lparr>trace := t\<rparr>) = trigger_writes s dev st"
  by (simp add: trigger_writes_def)

lemma enable_writes_trace_upd [simp]:
  "enable_writes cfg s enabled (st\<lparr>trace := t\<rparr>) = enable_writes cfg s enabled st"
  by (simp add: enable_writes_def)

lemma reconfigure_buffer_shape:
  assumes "reconfigure_buffer cfg e s enabled dev st = Some st'"
  shows "control_part st' = control_part st \<and>
         (\<exists>rd. list_all is_sysfs_read rd \<and>
            trace st' = trace st @ [Sysfs_write_int (ENABLE_PATH dev) 0] @ trigger_writes s dev st
              @ enable_writes cfg s enabled st
              @ (if trig_sensors_per_dev st dev \<noteq> 0
                 then rd @ [Sysfs_write_int (ENABLE_PATH dev) 1] else []))"
proof -
  define st3 where "st3 = st\<lparr>trace := trace st @ [Sysfs_write_int (ENABLE_PATH dev) 0]
      @ trigger_writes s dev st @ enable_writes cfg s enabled st\<rparr>"
  have pre: "write_channel_enables cfg s enabled
               [0..<num_channels (sensor_info (configure_trigger s dev (enable_buffer dev 0 st)) s)]
               (configure_trigger s dev (enable_buffer dev 0 st)) = st3"
    by (simp add: write_channel_enables_eq configure_trigger_eq enable_buffer_eq emit_def
        st3_def enable_writes_def)
  have t3: "trig_sensors_per_dev st3 dev = trig_sensors_per_dev st dev"
    by (simp add: st3_def)
  show ?thesis
  proof (cases "trig_sensors_per_dev st dev \<noteq> 0")
    case False
    with assms pre t3 have "st' = st3"
      by (simp add: reconfigure_buffer_def Let_def)
    then show ?thesis using False
      by (intro conjI exI [of _ "[]"]) (simp_all add: st3_def)
  next
    case True
    with assms pre t3 obtain st4 where
      r: "refresh_sensor_report_maps cfg e dev st3 = Some st4" and
      s': "st' = enable_buffer dev 1 st4"
      by (auto simp: reconfigure_buffer_def Let_def split: option.splits)
    from refresh_only_reads [OF r] obtain rd where
      c: "control_part st4 = control_part st3" and
      rd: "trace st4 = trace st3 @ rd" "list_all is_sysfs_read rd"
      by (auto simp: only_reads_def)
    have "control_part st' = control_part st"
      using c by (simp add: s' enable_buffer_eq st3_def)
    moreover have "trace st' = trace st @ [Sysfs_write_int (ENABLE_PATH dev) 0]
        @ trigger_writes s dev st @ enable_writes cfg s enabled st
        @ rd @ [Sysfs_write_int (ENABLE_PATH dev) 1]"
      using rd(1) by (simp add: s' enable_buffer_eq st3_def)
    ultimately show ?thesis using True rd(2) by auto
  qed
qed

lemma adjust_counters_trace [simp]: "trace (snd (adjust_counters cfg s enabled st)) = trace st"
  by (simp add: adjust_counters_def adjust_enable_count_def adjust_device_counters_def Let_def
      upd_sensor_def)


subsection \<open>The refresh returns\<close>

lemma scan_index_nonnegD:
  "scan_index_nonneg cfg e \<Longrightarrow>
   sysfs_int e (CHANNEL_PATH d (index_path (channel_desc (sensor_catalog cfg i) c))) = Some v \<Longrightarrow>
   0 \<le> v"
  unfolding scan_index_nonneg_def by blast

lemma scan_channel_total:
  "scan_index_nonneg cfg e \<Longrightarrow> \<exists>r. scan_channel cfg e s c sm = Some r"
  by (auto simp: scan_channel_def Let_def split: option.splits dest: scan_index_nonnegD)

lemma scan_channels_total:
  "scan_index_nonneg cfg e \<Longrightarrow> \<exists>r. scan_channels cfg e s cs sm = Some r"
proof (induction cs arbitrary: sm)
  case Nil
  then show ?case by simp
next
  case (Cons c cs)
  from scan_channel_total [OF Cons.prems] obtain r where "scan_channel cfg e s c sm = Some r"
    by blast
  with Cons.IH [OF Cons.prems, of r] show ?case by simp
qed

lemma scan_sensors_total:
  "scan_index_nonneg cfg e \<Longrightarrow> \<exists>r. scan_sensors cfg e dev ss sm = Some r"
proof (induction ss arbitrary: sm)
  case Nil
  then show ?case by simp
next
  case (Cons s ss)
  from scan_channels_total [OF Cons.prems] obtain r where
    "scan_channels cfg e s [0..<num_channels (sensor_info (fst sm) s)] sm = Some r"
    by blast
  with Cons.IH [OF Cons.prems, of r] Cons.IH [OF Cons.prems, of sm] show ?case by simp
qed

lemma refresh_total:
  "scan_index_nonneg cfg e \<Longrightarrow> \<exists>st'. refresh_sensor_report_maps cfg e dev st = Some st'"
  using scan_sensors_total [of cfg e dev "[0..<sensor_count st]" "(st, empty_maps)"]
  by (auto simp: refresh_sensor_report_maps_def)

lemma reconfigure_buffer_total:
  "scan_index_nonneg cfg e \<Longrightarrow> \<exists>st'. reconfigure_buffer cfg e s enabled dev st = Some st'"
proof -
  assume a: "scan_index_nonneg cfg e"
  obtain st3 where r: "refresh_sensor_report_maps cfg e dev
       (write_channel_enables cfg s enabled
          [0..<num_channels (sensor_info (configure_trigger s dev (enable_buffer dev 0 st)) s)]
          (configure_trigger s dev (enable_buffer dev 0 st))) = Some st3"
    using refresh_total [OF a] by blast
  show ?thesis by (simp add: reconfigure_buffer_def Let_def r)
qed

subsection \<open>What the control part determines\<close>

lemma control_part_fields:
  assumes "control_part a = control_part b"
  shows "device_fd a = device_fd b" and "poll_set a = poll_set b"
    and "trig_sensors_per_dev a = trig_sensors_per_dev b"
    and "poll_sensors_per_dev a = poll_sensors_per_dev b"
    and "active_poll_sensors a = active_poll_sensors b"
    and "sensor_count a = sensor_count b"
    and "enable_count (sensor_info a s) = enable_count (sensor_info b s)"
    and "dev_num (sensor_info a s) = dev_num (sensor_info b s)"
    and "num_channels (sensor_info a s) = num_channels (sensor_info b s)"
    and "report_pending (sensor_info a s) = report_pending (sensor_info b s)"
proof -
  have f: "\<And>g. g (control_part a) = g (control_part b)" using assms by simp
  show "device_fd a = device_fd b" using f [of device_fd] by (simp add: control_part_def)
  show "poll_set a = poll_set b" using f [of poll_set] by (simp add: control_part_def)
  show "trig_sensors_per_dev a = trig_sensors_per_dev b"
    using f [of trig_sensors_per_dev] by (simp add: control_part_def)
  show "poll_sensors_per_dev a = poll_sensors_per_dev b"
    using f [of poll_sensors_per_dev] by (simp add: control_part_def)
  show "active_poll_sensors a = active_poll_sensors b"
    using f [of active_poll_sensors] by (simp add: control_part_def)
  show "sensor_count a = sensor_count b" using f [of sensor_count] by (simp add: control_part_def)
  show "enable_count (sensor_info a s) = enable_count (sensor_info b s)"
    using f [of "\<lambda>x. enable_count (sensor_info x s)"] by (simp add: control_part_def)
  show "dev_num (sensor_info a s) = dev_num (sensor_info b s)"
    using f [of "\<lambda>x. dev_num (sensor_info x s)"] by (simp add: control_part_def)
  show "num_channels (sensor_info a s) = num_channels (sensor_info b s)"
    using f [of "\<lambda>x. num_channels (sensor_info x s)"] by (simp add: control_part_def)
  show "report_pending (sensor_info a s) = report_pending (sensor_info b s)"
    using f [of "\<lambda>x. report_pending (sensor_info x s)"] by (simp add: control_part_def)
qed

subsection \<open>The counter step on an edge\<close>

lemma adjust_counters_enable_edge:
  assumes "enabled \<noteq> 0" and "enable_count (sensor_info st s) = 0"
  shows "adjust_counters cfg s enabled st =
           adjust_device_counters s enabled (dev_num (sensor_info st s))
             (upd_sensor s (\<lambda>x. x\<lparr>enable_count := 1\<rparr>) st)"
  using assms by (simp add: adjust_counters_def adjust_enable_count_def Let_def upd_sensor_def)

lemma adjust_counters_enable_trig:
  assumes "enabled \<noteq> 0" and "enable_count (sensor_info st s) = 0"
      and "num_channels (sensor_info st s) \<noteq> 0"
  shows "adjust_counters cfg s enabled st =
           (1, (upd_sensor s (\<lambda>x. x\<lparr>enable_count := 1\<rparr>) st)
                 \<lparr>trig_sensors_per_dev := (trig_sensors_per_dev st)
                    (dev_num (sensor_info st s) :=
                       trig_sensors_per_dev st (dev_num (sensor_info st s)) + 1)\<rparr>)"
  using assms
  by (simp add: adjust_counters_enable_edge adjust_device_counters_def upd_sensor_def)

lemma adjust_counters_disable_trig:
  assumes "enable_count (sensor_info st s) = 1"
      and "num_channels (sensor_info st s) \<noteq> 0"
  shows "adjust_counters cfg s 0 st =
           (1, (upd_sensor s (\<lambda>x. x\<lparr>enable_count := 0, report_pending := 0,
                   report_buffer := memset (report_buffer x) 0 (MAX_SENSOR_REPORT_SIZE cfg)\<rparr>) st)
                 \<lparr>trig_sensors_per_dev := (trig_sensors_per_dev st)
                    (dev_num (sensor_info st s) :=
                       trig_sensors_per_dev st (dev_num (sensor_info st s)) - 1)\<rparr>)"
  using assms
  by (simp add: adjust_counters_def adjust_enable_count_def adjust_device_counters_def Let_def
      upd_sensor_def)

lemma adjust_counters_edge_ret:
  assumes "(enabled \<noteq> 0 \<and> enable_count (sensor_info st s) = 0) \<or>
           (enabled = 0 \<and> enable_count (sensor_info st s) = 1)"
  shows "fst (adjust_counters cfg s enabled st) = 1"
  using assms
  by (auto simp: adjust_counters_def adjust_enable_count_def adjust_device_counters_def Let_def
      upd_sensor_def)

lemma adjust_counters_static:
  "dev_num (sensor_info (snd (adjust_counters cfg s enabled st)) k) = dev_num (sensor_info st k)"
  "num_channels (sensor_info (snd (adjust_counters cfg s enabled st)) k)
     = num_channels (sensor_info st k)"
  "device_fd (snd (adjust_counters cfg s enabled st)) = device_fd st"
  "poll_set (snd (adjust_counters cfg s enabled st)) = poll_set st"
  by (simp_all add: adjust_counters_def adjust_enable_count_def adjust_device_counters_def Let_def
      upd_sensor_def)

subsection \<open>The concrete environments are well behaved\<close>

lemma ex_env_indices: "scan_index_nonneg ex_cfg ex_env"
  by (simp add: scan_index_nonneg_def ex_cfg_def ex_env_def ex_desc_def)

lemma ex_env_epoll_fails_indices: "scan_index_nonneg ex_cfg ex_env_epoll_fails"
  by (simp add: scan_index_nonneg_def ex_cfg_def ex_env_def ex_desc_def ex_env_epoll_fails_def)

subsection \<open>Order of the sysfs writes of an activation\<close>



text \<open>The calls of that activation, written out.\<close>

lemma ex_activation_trace:
  "map_option (\<lambda>p. (fst p, trace (snd p))) (sensor_activate ex_cfg ex_env 1 1 ex_state) = Some
     (0, [Sysfs_write_int (ENABLE_PATH 0) 0,
          Sysfs_write_str (TRIGGER_PATH 0) ''accel-dev0'',
          Sysfs_write_int (CHANNEL_PATH 0 ''x_en'') 1,
          Sysfs_write_int (CHANNEL_PATH 0 ''y_en'') 1,
          Sysfs_read_int (CHANNEL_PATH 0 ''x_en''),
          Sysfs_read_str (CHANNEL_PATH 0 ''x_type''),
          Sysfs_read_int (CHANNEL_PATH 0 ''x_index''),
          Sysfs_read_int (CHANNEL_PATH 0 ''y_en''),
          Sysfs_read_str (CHANNEL_PATH 0 ''y_type''),
          Sysfs_read_int (CHANNEL_PATH 0 ''y_index''),
          Sysfs_write_int (ENABLE_PATH 0) 1, Open_dev 0, Epoll_add 7 0, Wakeup_write])"
  by code_simp

subsection \<open>Failure to register with the poll set\<close>

text \<open>
  Claim C10. A sensor with channels is enabled from enable count 0, the device has no
  descriptor yet, \<^verbatim>\<open>open\<close> succeeds and \<^verbatim>\<open>epoll_ctl(EPOLL_CTL_ADD)\<close> returns -1. Then
  \<open>sensor_activate\<close> returns -1 and nothing is rolled back: the enable count is 1, the
  trigger count of the device is one more than before, the descriptor returned by
  \<^verbatim>\<open>open\<close> is stored for the device and is not closed during the call, the poll set is
  as before, and no wake-up byte is written during the call.
\<close>

theorem epoll_add_failure:
  assumes "num_channels (sensor_info st s) \<noteq> 0"
      and "enabled \<noteq> 0"
      and "enable_count (sensor_info st s) = 0"
      and "device_fd st (dev_num (sensor_info st s)) = - 1"
      and "open_res e (dev_num (sensor_info st s)) \<noteq> - 1"
      and "epoll_add_res e (open_res e (dev_num (sensor_info st s))) = - 1"
      and "scan_index_nonneg cfg e"
  shows "\<exists>st'. sensor_activate cfg e s enabled st = Some (- 1, st') \<and>
           enable_count (sensor_info st' s) = 1 \<and>
           trig_sensors_per_dev st' (dev_num (sensor_info st s))
             = trig_sensors_per_dev st (dev_num (sensor_info st s)) + 1 \<and>
           device_fd st' (dev_num (sensor_info st s)) = open_res e (dev_num (sensor_info st s)) \<and>
           poll_set st' = poll_set st \<and>
           Wakeup_write \<notin> set (drop (length (trace st)) (trace st')) \<and>
           Close_fd (open_res e (dev_num (sensor_info st s)))
             \<notin> set (drop (length (trace st)) (trace st'))"
proof -
  define dev where "dev = dev_num (sensor_info st s)"
  define st1 where "st1 = snd (adjust_counters cfg s enabled st)"
  have a: "adjust_counters cfg s enabled st = (1, st1)"
    using assms(1-3) by (simp add: adjust_counters_enable_trig st1_def)
  have e1: "enable_count (sensor_info st1 s) = 1"
    and g1: "trig_sensors_per_dev st1 dev = trig_sensors_per_dev st dev + 1"
    using assms(1-3) by (simp_all add: st1_def adjust_counters_enable_trig upd_sensor_def dev_def)
  have f1: "device_fd st1 = device_fd st" and p1: "poll_set st1 = poll_set st"
    by (simp_all add: st1_def adjust_counters_static)
  obtain st2 where r: "reconfigure_buffer cfg e s enabled dev st1 = Some st2"
    using reconfigure_buffer_total [OF assms(7)] by blast
  from reconfigure_buffer_shape [OF r] obtain rd where
    c2: "control_part st2 = control_part st1" and
    rd: "list_all is_sysfs_read rd" and
    t2: "trace st2 = trace st1 @ [Sysfs_write_int (ENABLE_PATH dev) 0] @ trigger_writes s dev st1
              @ enable_writes cfg s enabled st1
              @ (if trig_sensors_per_dev st1 dev \<noteq> 0
                 then rd @ [Sysfs_write_int (ENABLE_PATH dev) 1] else [])"
    by blast
  define st3 where "st3 = emit (Epoll_add (open_res e dev) dev)
      ((emit (Open_dev dev) st2)\<lparr>device_fd := (device_fd st2)(dev := open_res e dev)\<rparr>)"
  have m: "manage_device_fd cfg e s enabled dev False st2 = (- 1, st3)"
    using assms(2,4-6) control_part_fields(1) [OF c2]
    by (simp add: manage_device_fd_def Let_def f1 st3_def dev_def emit_def)
  have run: "sensor_activate cfg e s enabled st = Some (- 1, st3)"
    using assms(1) by (simp add: sensor_activate_def a r m dev_def [symmetric])
  have w: "Wakeup_write \<notin> set (trigger_writes s dev st1)"
          "Wakeup_write \<notin> set (enable_writes cfg s enabled st1)"
          "Wakeup_write \<notin> set rd"
          "Close_fd (open_res e dev) \<notin> set (trigger_writes s dev st1)"
          "Close_fd (open_res e dev) \<notin> set (enable_writes cfg s enabled st1)"
          "Close_fd (open_res e dev) \<notin> set rd"
    using rd by (auto simp: trigger_writes_def enable_writes_def list_all_iff)
  have t3: "drop (length (trace st)) (trace st3) =
      [Sysfs_write_int (ENABLE_PATH dev) 0] @ trigger_writes s dev st1
        @ enable_writes cfg s enabled st1
        @ (if trig_sensors_per_dev st1 dev \<noteq> 0
           then rd @ [Sysfs_write_int (ENABLE_PATH dev) 1] else [])
        @ [Open_dev dev, Epoll_add (open_res e dev) dev]"
    by (simp add: st3_def t2 st1_def emit_def)
  have fields: "enable_count (sensor_info st3 s) = 1"
      "trig_sensors_per_dev st3 dev = trig_sensors_per_dev st dev + 1"
      "device_fd st3 dev = open_res e dev" "poll_set st3 = poll_set st"
    by (simp_all add: st3_def emit_def e1 g1 p1 control_part_fields(2,3,7) [OF c2])
  have nw: "Wakeup_write \<notin> set (drop (length (trace st)) (trace st3))"
           "Close_fd (open_res e dev) \<notin> set (drop (length (trace st)) (trace st3))"
    by (simp_all add: t3 w)
  show ?thesis
    unfolding dev_def [symmetric]
    by (intro exI [of _ st3]) (simp add: run fields nw)
qed

theorem epoll_add_failure_witness:
  "num_channels (sensor_info ex_state 1) \<noteq> 0 \<and> (1::int) \<noteq> 0 \<and>
   enable_count (sensor_info ex_state 1) = 0 \<and>
   device_fd ex_state (dev_num (sensor_info ex_state 1)) = - 1 \<and>
   open_res ex_env_epoll_fails (dev_num (sensor_info ex_state 1)) \<noteq> - 1 \<and>
   epoll_add_res ex_env_epoll_fails
     (open_res ex_env_epoll_fails (dev_num (sensor_info ex_state 1))) = - 1 \<and>
   scan_index_nonneg ex_cfg ex_env_epoll_fails \<and>
   (\<exists>st'. sensor_activate ex_cfg ex_env_epoll_fails 1 1 ex_state = Some (- 1, st') \<and>
      enable_count (sensor_info st' 1) = 1 \<and>
      trig_sensors_per_dev st' (dev_num (sensor_info ex_state 1))
        = trig_sensors_per_dev ex_state (dev_num (sensor_info ex_state 1)) + 1 \<and>
      device_fd st' (dev_num (sensor_info ex_state 1))
        = open_res ex_env_epoll_fails (dev_num (sensor_info ex_state 1)) \<and>
      poll_set st' = poll_set ex_state \<and>
      Wakeup_write \<notin> set (drop (length (trace ex_state)) (trace st')) \<and>
      Close_fd (open_res ex_env_epoll_fails (dev_num (sensor_info ex_state 1)))
        \<notin> set (drop (length (trace ex_state)) (trace st')))"
proof -
  have h1: "num_channels (sensor_info ex_state 1) \<noteq> 0"
    and h2: "(1::int) \<noteq> 0"
    and h3: "enable_count (sensor_info ex_state 1) = 0"
    and h4: "device_fd ex_state (dev_num (sensor_info ex_state 1)) = - 1"
    and h5: "open_res ex_env_epoll_fails (dev_num (sensor_info ex_state 1)) \<noteq> - 1"
    and h6: "epoll_add_res ex_env_epoll_fails
               (open_res ex_env_epoll_fails (dev_num (sensor_info ex_state 1))) = - 1"
    by (simp_all add: ex_state_def ex_sensor_def ex_env_epoll_fails_def ex_env_def)
  from epoll_add_failure [OF h1 h2 h3 h4 h5 h6 ex_env_epoll_fails_indices]
    h1 h2 h3 h4 h5 h6 ex_env_epoll_fails_indices
  show ?thesis by blast
qed

subsection \<open>Enable counts stack\<close>

lemma set_count_simps [simp]:
  "set_count s c (set_count s c' st) = set_count s c st"
  "enable_count (sensor_info (set_count s c st) s) = c"
  "counters (set_count s c st) = counters st"
  "dev_num (sensor_info (set_count s c st) k) = dev_num (sensor_info st k)"
  "num_channels (sensor_info (set_count s c st) k) = num_channels (sensor_info st k)"
  by (simp_all add: set_count_def upd_sensor_def counters_def)

lemma set_count_same: "enable_count (sensor_info st s) = c \<Longrightarrow> set_count s c st = st"
  by (auto simp: set_count_def upd_sensor_def)

lemma enable_again:
  assumes "enabled \<noteq> 0" and "enable_count (sensor_info st s) \<noteq> 0"
  shows "sensor_activate cfg e s enabled st
           = Some (0, set_count s (enable_count (sensor_info st s) + 1) st)"
  using assms
  by (simp add: sensor_activate_def adjust_counters_def adjust_enable_count_def Let_def
      set_count_def upd_sensor_def)

lemma disable_inner:
  assumes "1 < enable_count (sensor_info st s)"
  shows "sensor_activate cfg e s 0 st
           = Some (0, set_count s (enable_count (sensor_info st s) - 1) st)"
  using assms
  by (simp add: sensor_activate_def adjust_counters_def adjust_enable_count_def Let_def
      set_count_def upd_sensor_def)

lemma activate_run_Cons:
  "activate_run cfg (c # cs) s st = Some sts \<longleftrightarrow>
     (\<exists>st' rest. sensor_activate cfg (fst c) s (snd c) st = Some (0, st') \<and>
        activate_run cfg cs s st' = Some rest \<and> sts = st' # rest)"
  by (auto split: option.splits)

lemma activate_run_append:
  "activate_run cfg (xs @ ys) s st = Some sts \<longleftrightarrow>
     (\<exists>a b. activate_run cfg xs s st = Some a \<and>
        activate_run cfg ys s (last (st # a)) = Some b \<and> sts = a @ b)"
proof (induction xs arbitrary: st sts)
  case Nil
  show ?case by simp
next
  case (Cons c cs)
  have l: "\<And>x rest. last (st # x # rest) = last (x # rest)" by simp
  show ?case
    unfolding append_Cons activate_run_Cons Cons.IH
    by (auto simp del: last.simps simp: l)
qed

lemma enables_run:
  "1 \<le> c \<Longrightarrow> enable_count (sensor_info B s) = c \<Longrightarrow>
   activate_run cfg (map (\<lambda>e. (e, 1)) es) s B =
     Some (map (\<lambda>k. set_count s (c + 1 + int k) B) [0..<length es])"
proof (induction es arbitrary: B c)
  case Nil
  show ?case by simp
next
  case (Cons e es)
  have step: "sensor_activate cfg e s 1 B = Some (0, set_count s (c + 1) B)"
    using Cons.prems by (simp add: enable_again)
  have "activate_run cfg (map (\<lambda>e. (e, 1)) es) s (set_count s (c + 1) B) =
          Some (map (\<lambda>k. set_count s (c + 1 + 1 + int k) (set_count s (c + 1) B)) [0..<length es])"
    using Cons.prems by (intro Cons.IH) simp_all
  then show ?case
    by (simp add: step map_upt_Suc add.assoc del: upt_Suc)
qed

lemma disables_run:
  "int (length ds) < c \<Longrightarrow> enable_count (sensor_info B s) = c \<Longrightarrow>
   activate_run cfg (map (\<lambda>e. (e, 0)) ds) s B =
     Some (map (\<lambda>k. set_count s (c - 1 - int k) B) [0..<length ds])"
proof (induction ds arbitrary: B c)
  case Nil
  show ?case by simp
next
  case (Cons e ds)
  have step: "sensor_activate cfg e s 0 B = Some (0, set_count s (c - 1) B)"
    using Cons.prems by (simp add: disable_inner)
  have "activate_run cfg (map (\<lambda>e. (e, 0)) ds) s (set_count s (c - 1) B) =
          Some (map (\<lambda>k. set_count s (c - 1 - 1 - int k) (set_count s (c - 1) B)) [0..<length ds])"
    using Cons.prems by (intro Cons.IH) simp_all
  then show ?case
    by (simp add: step map_upt_Suc algebra_simps del: upt_Suc)
qed

subsection \<open>The first enable and the last disable\<close>

lemma manage_device_fd_frame:
  assumes "manage_device_fd cfg e s enabled dev p st = (0, st')"
  shows "sensor_info st' = sensor_info st" and "counters st' = counters st"
proof -
  have "fst (manage_device_fd cfg e s enabled dev p st) = 0 \<Longrightarrow>
        sensor_info (snd (manage_device_fd cfg e s enabled dev p st)) = sensor_info st \<and>
        counters (snd (manage_device_fd cfg e s enabled dev p st)) = counters st"
    by (simp add: manage_device_fd_def Let_def emit_def counters_def split: if_split_asm)
  with assms show "sensor_info st' = sensor_info st" and "counters st' = counters st"
    by simp_all
qed

lemma adjust_device_counters_counters:
  "num_channels (sensor_info B s) = num_channels (sensor_info A s) \<Longrightarrow> counters B = counters A \<Longrightarrow>
   counters (snd (adjust_device_counters s enabled dev B))
     = counters (snd (adjust_device_counters s enabled dev A))"
  by (simp add: adjust_device_counters_def counters_def)

lemma adjust_device_counters_info [simp]:
  "sensor_info (snd (adjust_device_counters s enabled dev st)) = sensor_info st"
  by (simp add: adjust_device_counters_def)

lemma control_part_counters:
  assumes "control_part a = control_part b"
  shows "counters a = counters b"
  using control_part_fields(3,4,5) [OF assms] by (simp add: counters_def)

lemma first_enable:
  assumes "enable_count (sensor_info st s) = 0"
      and "sensor_activate cfg e s 1 st = Some (0, st')"
  shows "enable_count (sensor_info st' s) = 1"
    and "counters st' = counters_after_enable s st"
    and "dev_num (sensor_info st' s) = dev_num (sensor_info st s)"
    and "num_channels (sensor_info st' s) = num_channels (sensor_info st s)"
proof -
  define dev where "dev = dev_num (sensor_info st s)"
  define st1 where "st1 = snd (adjust_counters cfg s 1 st)"
  have a: "adjust_counters cfg s 1 st = (1, st1)"
    using adjust_counters_edge_ret [of 1 st s cfg] assms(1) by (simp add: st1_def prod_eq_iff)
  have s1: "st1 = snd (adjust_device_counters s 1 dev (upd_sensor s (\<lambda>x. x\<lparr>enable_count := 1\<rparr>) st))"
    using assms(1) by (simp add: st1_def adjust_counters_enable_edge dev_def)
  have c1: "counters st1 = counters_after_enable s st"
    unfolding s1 counters_after_enable_def dev_def [symmetric]
    by (rule adjust_device_counters_counters) (simp_all add: upd_sensor_def counters_def)
  have i1: "enable_count (sensor_info st1 s) = 1"
           "dev_num (sensor_info st1 s) = dev_num (sensor_info st s)"
           "num_channels (sensor_info st1 s) = num_channels (sensor_info st s)"
    by (simp_all add: s1 upd_sensor_def)
  obtain st2 where
    m: "manage_device_fd cfg e s 1 dev (num_channels (sensor_info st s) = 0) st2 = (0, st')" and
    c2: "control_part st2 = control_part st1"
  proof (cases "num_channels (sensor_info st s) = 0")
    case True
    with assms(2) have "manage_device_fd cfg e s 1 dev True st1 = (0, st')"
      by (simp add: sensor_activate_def a dev_def [symmetric])
    with True that [of st1] show ?thesis by simp
  next
    case False
    with assms(2) obtain x where
      r: "reconfigure_buffer cfg e s 1 dev st1 = Some x" and
      "manage_device_fd cfg e s 1 dev False x = (0, st')"
      by (auto simp: sensor_activate_def a dev_def [symmetric] split: option.splits)
    with False that [of x] reconfigure_buffer_shape [OF r] show ?thesis by simp
  qed
  have i2: "sensor_info st' = sensor_info st2" and cc: "counters st' = counters st2"
    using manage_device_fd_frame [OF m] by simp_all
  show "enable_count (sensor_info st' s) = 1"
    using i1(1) control_part_fields(7) [OF c2, of s] by (simp add: i2)
  show "counters st' = counters_after_enable s st"
    using c1 control_part_counters [OF c2] by (simp add: cc)
  show "dev_num (sensor_info st' s) = dev_num (sensor_info st s)"
    using i1(2) control_part_fields(8) [OF c2, of s] by (simp add: i2)
  show "num_channels (sensor_info st' s) = num_channels (sensor_info st s)"
    using i1(3) control_part_fields(9) [OF c2, of s] by (simp add: i2)
qed

lemma last_disable:
  assumes "enable_count (sensor_info st s) = 1"
      and "sensor_activate cfg e s 0 st = Some (r, st')"
  shows "enable_count (sensor_info st' s) = 0"
    and "counters st' = counters (snd (adjust_device_counters s 0 (dev_num (sensor_info st s)) st))"
proof -
  define dev where "dev = dev_num (sensor_info st s)"
  define st1 where "st1 = snd (adjust_counters cfg s 0 st)"
  have a: "adjust_counters cfg s 0 st = (1, st1)"
    using adjust_counters_edge_ret [of 0 st s cfg] assms(1) by (simp add: st1_def prod_eq_iff)
  have s1: "st1 = snd (adjust_device_counters s 0 dev
      (upd_sensor s (\<lambda>x. x\<lparr>enable_count := 0, report_pending := 0,
          report_buffer := memset (report_buffer x) 0 (MAX_SENSOR_REPORT_SIZE cfg)\<rparr>) st))"
    using assms(1)
    by (simp add: st1_def adjust_counters_def adjust_enable_count_def Let_def upd_sensor_def dev_def)
  have c1: "counters st1 = counters (snd (adjust_device_counters s 0 dev st))"
    unfolding s1
    by (rule adjust_device_counters_counters) (simp_all add: upd_sensor_def counters_def)
  have i1: "enable_count (sensor_info st1 s) = 0"
    by (simp add: s1 upd_sensor_def)
  obtain st2 where
    m: "manage_device_fd cfg e s 0 dev (num_channels (sensor_info st s) = 0) st2 = (r, st')" and
    c2: "control_part st2 = control_part st1"
  proof (cases "num_channels (sensor_info st s) = 0")
    case True
    with assms(2) have "manage_device_fd cfg e s 0 dev True st1 = (r, st')"
      by (simp add: sensor_activate_def a dev_def [symmetric])
    with True that [of st1] show ?thesis by simp
  next
    case False
    with assms(2) obtain x where
      r: "reconfigure_buffer cfg e s 0 dev st1 = Some x" and
      "manage_device_fd cfg e s 0 dev False x = (r, st')"
      by (auto simp: sensor_activate_def a dev_def [symmetric] split: option.splits)
    with False that [of x] reconfigure_buffer_shape [OF r] show ?thesis by simp
  qed
  have r0: "r = 0" using m by (auto simp: manage_device_fd_def Let_def split: if_splits)
  have i2: "sensor_info st' = sensor_info st2" and cc: "counters st' = counters st2"
    using manage_device_fd_frame [of cfg e s 0 dev _ st2 st'] m r0 by simp_all
  show "enable_count (sensor_info st' s) = 0"
    using i1 control_part_fields(7) [OF c2, of s] by (simp add: i2)
  show "counters st' = counters (snd (adjust_device_counters s 0 (dev_num (sensor_info st s)) st))"
    using c1 control_part_counters [OF c2] by (simp add: cc dev_def)
qed

lemma counters_round_trip:
  assumes "counters B = counters_after_enable s A"
      and "dev_num (sensor_info B s) = dev_num (sensor_info A s)"
      and "num_channels (sensor_info B s) = num_channels (sensor_info A s)"
  shows "counters (snd (adjust_device_counters s 0 (dev_num (sensor_info B s)) B)) = counters A"
proof (cases "num_channels (sensor_info A s) = 0")
  case True
  have "poll_sensors_per_dev B = (poll_sensors_per_dev A)
          (dev_num (sensor_info A s) := poll_sensors_per_dev A (dev_num (sensor_info A s)) + 1)"
    and "trig_sensors_per_dev B = trig_sensors_per_dev A"
    and "active_poll_sensors B = active_poll_sensors A + 1"
    using assms(1) True
    by (simp_all add: counters_after_enable_def adjust_device_counters_def counters_def)
  then show ?thesis
    using True assms(2,3) by (simp add: adjust_device_counters_def counters_def)
next
  case False
  have "poll_sensors_per_dev B = poll_sensors_per_dev A"
    and "trig_sensors_per_dev B = (trig_sensors_per_dev A)
          (dev_num (sensor_info A s) := trig_sensors_per_dev A (dev_num (sensor_info A s)) + 1)"
    and "active_poll_sensors B = active_poll_sensors A"
    using assms(1) False
    by (simp_all add: counters_after_enable_def adjust_device_counters_def counters_def)
  then show ?thesis
    using False assms(2,3) by (simp add: adjust_device_counters_def counters_def)
qed

lemma counters_after_enable_differs: "counters_after_enable s st \<noteq> counters st"
  by (simp add: counters_after_enable_def adjust_device_counters_def counters_def
      fun_upd_idem_iff)

subsection \<open>The round trip of the reference counts\<close>

text \<open>
  Claim C6. Start with enable count 0 for sensor \<open>s\<close> and run \<open>n \<ge> 1\<close> enables followed by
  \<open>n\<close> disables, each call in an environment of its own and each returning 0. Then the
  enable count goes 1, 2, ..., n, n - 1, ..., 0; after the last call \<open>poll_sensors_per_dev\<close>,
  \<open>trig_sensors_per_dev\<close> and \<open>active_poll_sensors\<close> are what they were at the start; and after
  every call but the last they have the values the first enable gave them, which differ
  from the starting values: only the first enable and the last disable change them.
\<close>

theorem refcount_round_trip:
  assumes "enable_count (sensor_info st s) = 0"
      and "1 \<le> n" and "length es = n" and "length ds = n"
      and "activate_run cfg (map (\<lambda>e. (e, 1)) es @ map (\<lambda>e. (e, 0)) ds) s st = Some sts"
  shows "length sts = 2 * n \<and>
         enable_count (sensor_info (last sts) s) = 0 \<and>
         counters (last sts) = counters st \<and>
         (\<forall>k. k < 2 * n - 1 \<longrightarrow> counters (sts ! k) = counters_after_enable s st) \<and>
         counters_after_enable s st \<noteq> counters st \<and>
         (\<forall>k. k < 2 * n \<longrightarrow>
            enable_count (sensor_info (sts ! k) s)
              = (if k < n then int k + 1 else 2 * int n - 1 - int k))"
proof -
  obtain e1 es' where es: "es = e1 # es'" and les: "length es' = n - 1"
    using assms(2,3) by (cases es) auto
  obtain ds' dl where ds: "ds = ds' @ [dl]" and lds: "length ds' = n - 1"
    using assms(2,4) by (cases ds rule: rev_cases) auto
  have calls: "map (\<lambda>e. (e, 1)) es @ map (\<lambda>e. (e, 0)) ds =
      (e1, 1) # (map (\<lambda>e. (e, 1)) es' @ (map (\<lambda>e. (e, 0)) ds' @ [(dl, 0)]))"
    by (simp add: es ds)
  from assms(5) obtain st1 rest where
    first: "sensor_activate cfg e1 s 1 st = Some (0, st1)" and
    rest: "activate_run cfg (map (\<lambda>e. (e, 1)) es' @ (map (\<lambda>e. (e, 0)) ds' @ [(dl, 0)])) s st1
             = Some rest" and
    sts: "sts = st1 # rest"
    unfolding calls activate_run_Cons by auto
  note f = first_enable [OF assms(1) first]
  define E where "E = map (\<lambda>k. set_count s (1 + 1 + int k) st1) [0..<length es']"
  have runE: "activate_run cfg (map (\<lambda>e. (e, 1)) es') s st1 = Some E"
    unfolding E_def by (rule enables_run) (simp_all add: f(1))
  have lastE: "last (st1 # E) = set_count s (int n) st1"
  proof (cases "es' = []")
    case True
    then have "n = 1" using les assms(2) by simp
    then show ?thesis using True by (simp add: E_def set_count_same f(1))
  next
    case False
    then have "E \<noteq> []" by (simp add: E_def)
    then have "last (st1 # E) = E ! (length es' - 1)"
      by (simp add: last_conv_nth E_def)
    also have "\<dots> = set_count s (1 + 1 + int (length es' - 1)) st1"
      using False by (simp add: E_def)
    also have "1 + 1 + int (length es' - 1) = int n"
      using False les by (cases es') auto
    finally show ?thesis .
  qed
  from rest runE obtain rest2 where
    rest2: "activate_run cfg (map (\<lambda>e. (e, 0)) ds' @ [(dl, 0)]) s (set_count s (int n) st1)
              = Some rest2" and
    r: "rest = E @ rest2"
    unfolding activate_run_append by (auto simp: lastE simp del: last.simps)
  define Bn where "Bn = set_count s (int n) st1"
  define D where "D = map (\<lambda>k. set_count s (int n - 1 - int k) Bn) [0..<length ds']"
  have runD: "activate_run cfg (map (\<lambda>e. (e, 0)) ds') s Bn = Some D"
    unfolding D_def by (rule disables_run) (simp_all add: Bn_def lds, use assms(2) in linarith)
  have lastD: "last (Bn # D) = st1"
  proof (cases "ds' = []")
    case True
    then have "n = 1" using lds assms(2) by simp
    then show ?thesis using True by (simp add: D_def Bn_def set_count_same f(1))
  next
    case False
    then have "D \<noteq> []" by (simp add: D_def)
    then have "last (Bn # D) = D ! (length ds' - 1)"
      by (simp add: last_conv_nth D_def)
    also have "\<dots> = set_count s (int n - 1 - int (length ds' - 1)) Bn"
      using False by (simp add: D_def)
    also have "int n - 1 - int (length ds' - 1) = 1"
      using False lds by (cases ds') auto
    finally show ?thesis by (simp add: Bn_def set_count_same f(1))
  qed
  from rest2 runD obtain stf r0 where
    final: "sensor_activate cfg dl s 0 st1 = Some (r0, stf)" and
    r2: "rest2 = D @ [stf]"
    unfolding activate_run_append Bn_def [symmetric]
    by (auto simp: lastD simp del: last.simps split: option.splits if_splits)
  note l = last_disable [OF f(1) final]
  have whole: "sts = st1 # E @ D @ [stf]" by (simp add: sts r r2)
  have lenE: "length E = n - 1" and lenD: "length D = n - 1"
    by (simp_all add: E_def D_def les lds)
  have cE: "\<And>k. k < n - 1 \<Longrightarrow> counters (E ! k) = counters st1"
    and cD: "\<And>k. k < n - 1 \<Longrightarrow> counters (D ! k) = counters st1"
    and eE: "\<And>k. k < n - 1 \<Longrightarrow> enable_count (sensor_info (E ! k) s) = 2 + int k"
    and eD: "\<And>k. k < n - 1 \<Longrightarrow> enable_count (sensor_info (D ! k) s) = int n - 1 - int k"
    by (simp_all add: E_def D_def Bn_def les lds)
  have len: "length sts = 2 * n" using assms(2) by (simp add: whole lenE lenD)
  have c_last: "counters (last sts) = counters st"
    using l(2) counters_round_trip [OF f(2) f(3) f(4)] by (simp add: whole)
  have c_mid: "\<forall>k. k < 2 * n - 1 \<longrightarrow> counters (sts ! k) = counters_after_enable s st"
  proof (intro allI impI)
    fix k assume k: "k < 2 * n - 1"
    consider "k = 0" | "1 \<le> k" "k - 1 < n - 1" | "n \<le> k" "k - n < n - 1"
      using k by linarith
    then show "counters (sts ! k) = counters_after_enable s st"
    proof cases
      case 1
      then show ?thesis by (simp add: whole f(2))
    next
      case 2
      then have "sts ! k = E ! (k - 1)" by (simp add: whole nth_Cons' nth_append lenE)
      then show ?thesis using cE [OF 2(2)] by (simp add: f(2))
    next
      case 3
      then have "sts ! k = D ! (k - n)"
        using assms(2) by (simp add: whole nth_Cons' nth_append lenE lenD)
      then show ?thesis using cD [OF 3(2)] by (simp add: f(2))
    qed
  qed
  have e_all: "\<forall>k. k < 2 * n \<longrightarrow>
            enable_count (sensor_info (sts ! k) s)
              = (if k < n then int k + 1 else 2 * int n - 1 - int k)"
  proof (intro allI impI)
    fix k assume k: "k < 2 * n"
    consider "k = 0" | "1 \<le> k" "k - 1 < n - 1" | "n \<le> k" "k - n < n - 1" | "k = 2 * n - 1"
      using k by linarith
    then show "enable_count (sensor_info (sts ! k) s)
              = (if k < n then int k + 1 else 2 * int n - 1 - int k)"
    proof cases
      case 1
      then show ?thesis using assms(2) by (simp add: whole f(1))
    next
      case 2
      then have "sts ! k = E ! (k - 1)" by (simp add: whole nth_Cons' nth_append lenE)
      then show ?thesis using eE [OF 2(2)] 2 by auto
    next
      case 3
      then have "sts ! k = D ! (k - n)"
        using assms(2) by (simp add: whole nth_Cons' nth_append lenE lenD)
      then show ?thesis using eD [OF 3(2)] 3 by auto
    next
      case 4
      then have "sts ! k = stf"
        using assms(2) by (simp add: whole nth_Cons' nth_append lenE lenD)
      then show ?thesis using l(1) 4 assms(2) by auto
    qed
  qed
  show ?thesis
    using len c_last c_mid e_all l(1) counters_after_enable_differs [of s st]
    by (simp add: whole)
qed

subsection \<open>In a benign environment the calls succeed\<close>

lemma manage_device_fd_succeeds:
  assumes "open_res e dev \<noteq> - 1" and "epoll_add_res e (open_res e dev) \<noteq> - 1"
  shows "fst (manage_device_fd cfg e s enabled dev p st) = 0"
  using assms by (simp add: manage_device_fd_def Let_def)

lemma adjust_counters_ret:
  assumes "enabled \<noteq> 0 \<or> enable_count (sensor_info st s) \<noteq> 0"
  shows "fst (adjust_counters cfg s enabled st) = 0 \<or> fst (adjust_counters cfg s enabled st) = 1"
  using assms
  by (auto simp: adjust_counters_def adjust_enable_count_def adjust_device_counters_def Let_def)

lemma activate_succeeds:
  assumes "benign cfg e (dev_num (sensor_info st s))"
      and "enabled \<noteq> 0 \<or> enable_count (sensor_info st s) \<noteq> 0"
  shows "\<exists>st'. sensor_activate cfg e s enabled st = Some (0, st')"
proof -
  define dev where "dev = dev_num (sensor_info st s)"
  define st1 where "st1 = snd (adjust_counters cfg s enabled st)"
  have m: "\<And>p x. fst (manage_device_fd cfg e s enabled dev p x) = 0"
    using assms(1) by (simp add: benign_def manage_device_fd_succeeds dev_def)
  have "scan_index_nonneg cfg e" using assms(1) by (simp add: benign_def)
  from reconfigure_buffer_total [OF this]
  obtain st2 where r: "reconfigure_buffer cfg e s enabled dev st1 = Some st2" by blast
  from adjust_counters_ret [OF assms(2), of cfg] show ?thesis
  proof
    assume "fst (adjust_counters cfg s enabled st) = 0"
    then have "adjust_counters cfg s enabled st = (0, st1)" by (simp add: st1_def prod_eq_iff)
    then show ?thesis by (simp add: sensor_activate_def)
  next
    assume "fst (adjust_counters cfg s enabled st) = 1"
    then have a: "adjust_counters cfg s enabled st = (1, st1)" by (simp add: st1_def prod_eq_iff)
    show ?thesis
    proof (cases "num_channels (sensor_info st s) = 0")
      case True
      have "sensor_activate cfg e s enabled st = Some (manage_device_fd cfg e s enabled dev True st1)"
        using True by (simp add: sensor_activate_def a dev_def)
      then show ?thesis using m [of True st1] by (auto simp: prod_eq_iff)
    next
      case False
      have "sensor_activate cfg e s enabled st = Some (manage_device_fd cfg e s enabled dev False st2)"
        using False by (simp add: sensor_activate_def a r dev_def [symmetric])
      then show ?thesis using m [of False st2] by (auto simp: prod_eq_iff)
    qed
  qed
qed

lemma round_trip_runs:
  assumes "enable_count (sensor_info st s) = 0"
      and "length ds = length es"
      and "\<forall>e \<in> set (es @ ds). benign cfg e (dev_num (sensor_info st s))"
  shows "\<exists>sts. activate_run cfg (map (\<lambda>e. (e, 1)) es @ map (\<lambda>e. (e, 0)) ds) s st = Some sts"
proof (cases es)
  case Nil
  with assms(2) show ?thesis by simp
next
  case (Cons e1 es')
  from assms(2) Cons obtain ds' dl where ds: "ds = ds' @ [dl]" and lds: "length ds' = length es'"
    by (cases ds rule: rev_cases) auto
  have b1: "benign cfg e1 (dev_num (sensor_info st s))"
    and bl: "benign cfg dl (dev_num (sensor_info st s))"
    using assms(3) by (simp_all add: Cons ds)
  obtain st1 where first: "sensor_activate cfg e1 s 1 st = Some (0, st1)"
    using activate_succeeds [OF b1, of 1] by auto
  note f = first_enable [OF assms(1) first]
  define E where "E = map (\<lambda>k. set_count s (1 + 1 + int k) st1) [0..<length es']"
  have runE: "activate_run cfg (map (\<lambda>e. (e, 1)) es') s st1 = Some E"
    unfolding E_def by (rule enables_run) (simp_all add: f(1))
  define Bn where "Bn = last (st1 # E)"
  have cnt: "enable_count (sensor_info Bn s) = 1 + int (length es')"
  proof (cases "es' = []")
    case True
    then show ?thesis by (simp add: Bn_def E_def f(1))
  next
    case False
    then have "E \<noteq> []" by (simp add: E_def)
    then have "Bn = E ! (length es' - 1)" by (simp add: Bn_def last_conv_nth E_def)
    also have "\<dots> = set_count s (1 + 1 + int (length es' - 1)) st1"
      using False by (simp add: E_def)
    finally show ?thesis using False by (cases es') auto
  qed
  have base: "Bn = set_count s (1 + int (length es')) st1"
  proof (cases "es' = []")
    case True
    then show ?thesis by (simp add: Bn_def E_def set_count_same f(1))
  next
    case False
    then have "E \<noteq> []" by (simp add: E_def)
    then have "Bn = E ! (length es' - 1)" by (simp add: Bn_def last_conv_nth E_def)
    also have "\<dots> = set_count s (1 + 1 + int (length es' - 1)) st1"
      using False by (simp add: E_def)
    also have "1 + 1 + int (length es' - 1) = 1 + int (length es')"
      using False by (cases es') auto
    finally show ?thesis .
  qed
  define D where "D = map (\<lambda>k. set_count s (1 + int (length es') - 1 - int k) Bn) [0..<length ds']"
  have runD: "activate_run cfg (map (\<lambda>e. (e, 0)) ds') s Bn = Some D"
    unfolding D_def by (rule disables_run) (simp_all add: cnt lds)
  have lastD: "last (Bn # D) = st1"
  proof (cases "ds' = []")
    case True
    then show ?thesis using lds by (simp add: D_def base set_count_same f(1))
  next
    case False
    then have "D \<noteq> []" by (simp add: D_def)
    then have "last (Bn # D) = D ! (length ds' - 1)" by (simp add: last_conv_nth D_def)
    also have "\<dots> = set_count s (1 + int (length es') - 1 - int (length ds' - 1)) Bn"
      using False by (simp add: D_def)
    also have "1 + int (length es') - 1 - int (length ds' - 1) = 1"
      using False lds by (cases ds') auto
    finally show ?thesis by (simp add: base set_count_same f(1))
  qed
  obtain stf where final: "sensor_activate cfg dl s 0 st1 = Some (0, stf)"
    using activate_succeeds [of cfg dl st1 s 0] bl f(1,3) by auto
  have "activate_run cfg [(dl, 0)] s st1 = Some [stf]" by (simp add: final)
  with runD lastD have "activate_run cfg (map (\<lambda>e. (e, 0)) ds' @ [(dl, 0)]) s Bn = Some (D @ [stf])"
    unfolding activate_run_append by (simp del: last.simps activate_run.simps)
  with runE have "activate_run cfg (map (\<lambda>e. (e, 1)) es' @ (map (\<lambda>e. (e, 0)) ds' @ [(dl, 0)])) s st1
      = Some (E @ D @ [stf])"
    unfolding activate_run_append [of cfg "map (\<lambda>e. (e, 1)) es'"] Bn_def
    by (simp del: last.simps activate_run.simps)
  then have "activate_run cfg ((e1, 1) # (map (\<lambda>e. (e, 1)) es' @ (map (\<lambda>e. (e, 0)) ds' @ [(dl, 0)]))) s st
      = Some (st1 # E @ D @ [stf])"
    by (simp add: first)
  then show ?thesis by (simp add: Cons ds)
qed

lemma ex_env_benign: "benign ex_cfg ex_env 0"
  by (simp add: benign_def ex_env_indices) (simp add: ex_env_def)

theorem refcount_round_trip_witness:
  "enable_count (sensor_info ex_state 1) = 0 \<and> (1::nat) \<le> 2 \<and>
   length [ex_env, ex_env] = 2 \<and>
   activate_run ex_cfg
     (map (\<lambda>e. (e, 1)) [ex_env, ex_env] @ map (\<lambda>e. (e, 0)) [ex_env, ex_env]) 1 ex_state
     = Some ex_round_trip \<and>
   length ex_round_trip = 4 \<and>
   enable_count (sensor_info (last ex_round_trip) 1) = 0 \<and>
   counters (last ex_round_trip) = counters ex_state \<and>
   counters (ex_round_trip ! 0) = counters_after_enable 1 ex_state \<and>
   counters (ex_round_trip ! 1) = counters_after_enable 1 ex_state \<and>
   counters (ex_round_trip ! 2) = counters_after_enable 1 ex_state \<and>
   counters_after_enable 1 ex_state \<noteq> counters ex_state \<and>
   enable_count (sensor_info (ex_round_trip ! 0) 1) = 1 \<and>
   enable_count (sensor_info (ex_round_trip ! 1) 1) = 2 \<and>
   enable_count (sensor_info (ex_round_trip ! 2) 1) = 1 \<and>
   enable_count (sensor_info (ex_round_trip ! 3) 1) = 0"
proof -
  have h1: "enable_count (sensor_info ex_state 1) = 0"
    by (simp add: ex_state_def ex_sensor_def)
  have d: "dev_num (sensor_info ex_state 1) = 0"
    by (simp add: ex_state_def ex_sensor_def)
  have h2: "(1::nat) \<le> 2" and h3: "length [ex_env, ex_env] = 2" by simp_all
  have "\<exists>sts. activate_run ex_cfg
     (map (\<lambda>e. (e, 1)) [ex_env, ex_env] @ map (\<lambda>e. (e, 0)) [ex_env, ex_env]) 1 ex_state
     = Some sts"
    using ex_env_benign d by (intro round_trip_runs [OF h1]) simp_all
  then have h5: "activate_run ex_cfg
     (map (\<lambda>e. (e, 1)) [ex_env, ex_env] @ map (\<lambda>e. (e, 0)) [ex_env, ex_env]) 1 ex_state
     = Some ex_round_trip"
    unfolding ex_round_trip_def by (auto simp del: activate_run.simps)
  note t = refcount_round_trip [OF h1 h2 h3 h3 h5]
  from t have c: "\<And>k. k < 3 \<Longrightarrow> counters (ex_round_trip ! k) = counters_after_enable 1 ex_state"
    by simp
  from t have e: "\<And>k. k < 4 \<Longrightarrow> enable_count (sensor_info (ex_round_trip ! k) 1)
        = (if k < 2 then int k + 1 else 3 - int k)"
    by simp
  show ?thesis
    using h1 h5 t c [of 0] c [of 1] c [of 2] e [of 0] e [of 1] e [of 2] e [of 3]
    by simp
qed

subsection \<open>The poll set on a device with sensors of both modes\<close>

text \<open>
  Claim C1 at a failing input. Device 0 of the installation carries the poll-mode sensor 0
  and the trigger-mode sensor 1; \<^verbatim>\<open>open\<close> returns descriptor 7. First run: sensor 0 is
  enabled, then sensor 1; both calls return 0, the trigger count of the device is 1, and
  descriptor 7 is not in the poll set, because the descriptor was already open when the
  trigger-mode sensor came. Second run: sensor 1 is enabled, then sensor 0, then sensor 1
  is disabled; all calls return 0, the trigger count of the device is 0, the poll count
  is 1, and descriptor 7 is still in the poll set, because it is removed only when the
  descriptor is closed.
\<close>

theorem mixed_device_poll_set:
  "Option.bind (sensor_activate ex_cfg ex_env 0 1 ex_state)
     (\<lambda>p1. map_option
        (\<lambda>p2. (fst p1, fst p2, trig_sensors_per_dev (snd p2) 0, poll_sensors_per_dev (snd p2) 0,
                device_fd (snd p2) 0, 7 \<in> poll_set (snd p2)))
        (sensor_activate ex_cfg ex_env 1 1 (snd p1)))
   = Some (0, 0, 1, 1, 7, False) \<and>
   Option.bind (sensor_activate ex_cfg ex_env 1 1 ex_state)
     (\<lambda>p1. Option.bind (sensor_activate ex_cfg ex_env 0 1 (snd p1))
        (\<lambda>p2. map_option
           (\<lambda>p3. (fst p1, fst p2, fst p3, trig_sensors_per_dev (snd p3) 0,
                   poll_sensors_per_dev (snd p3) 0, device_fd (snd p3) 0, 7 \<in> poll_set (snd p3)))
           (sensor_activate ex_cfg ex_env 1 0 (snd p2))))
   = Some (0, 0, 0, 0, 1, 7, True)"
  by code_simp

subsection \<open>The layout refresh at two failing inputs\<close>

text \<open>
  Claim C2 at a failing input. The \<^verbatim>\<open>_en\<close> attribute of the x channel of sensor 1 reads 0,
  its type and index are readable. The scan records the channel all the same (two
  channels counted, size 2 in the table at index 0), and after the refresh the x channel
  has size 2 at offset 0 and the y channel, the only enabled one, sits at offset 2.
\<close>

theorem disabled_channel_in_layout:
  "sysfs_int ex_env_x_off (CHANNEL_PATH 0 ''x_en'') = Some 0 \<and>
   map_option (\<lambda>p. (active_channels (snd p), channel_size_from_index (snd p) 0))
     (scan_sensors ex_cfg ex_env_x_off 0 [0..<sensor_count ex_state] (ex_state, empty_maps))
     = Some (2, 2) \<and>
   map_option (\<lambda>st. (size_ch (channel (sensor_info st 1) 0), offset (channel (sensor_info st 1) 0),
                       size_ch (channel (sensor_info st 1) 1), offset (channel (sensor_info st 1) 1)))
     (refresh_sensor_report_maps ex_cfg ex_env_x_off 0 ex_state)
     = Some (2, 0, 2, 2)"
  by code_simp

text \<open>
  Claim C3 at a failing input. With \<open>MAX_SENSORS = 4\<close> and \<open>MAX_CHANNELS = 2\<close> the tables have
  8 entries. The scan index of the y channel of sensor 1 reads 4, which is below 8. The
  scan skips the channel (one channel counted, the table entries at index 4 untouched),
  and after the refresh the y channel has size 0 and no offset.
\<close>

theorem index_below_table_size_skipped:
  "sysfs_int ex_env_index4 (CHANNEL_PATH 0 ''y_index'') = Some 4 \<and>
   (4::int) < int (MAX_SENSORS ex_cfg * MAX_CHANNELS ex_cfg) \<and>
   map_option (\<lambda>p. (active_channels (snd p), channel_size_from_index (snd p) 4,
                      sensor_handle_from_index (snd p) 4, channel_number_from_index (snd p) 4))
     (scan_sensors ex_cfg ex_env_index4 0 [0..<sensor_count ex_state] (ex_state, empty_maps))
     = Some (1, 0, 0, 0) \<and>
   map_option (\<lambda>st. (size_ch (channel (sensor_info st 1) 0), offset (channel (sensor_info st 1) 0),
                       size_ch (channel (sensor_info st 1) 1), offset (channel (sensor_info st 1) 1)))
     (refresh_sensor_report_maps ex_cfg ex_env_index4 0 ex_state)
     = Some (2, 0, 0, 0)"
  by code_simp

end
